theory Spec2Isabelle
  imports Complex_Main "HOL-Library.AList" "HOL-Library.Log_Nat"
begin

section \<open>Python values\<close>

text \<open>
  The watchdog handles two documents, both decoded from JSON: the status snapshot of the
  bridge and the connector configuration file. A decoded document is a Python value built
  from \<open>None\<close>, booleans, integers, floats, strings, lists and dicts. A dict is an
  association list in insertion order; \<open>map_of\<close> is the lookup and
  \<open>AList.update\<close> the item assignment (it replaces the value of a key where the key
  stands, and appends a new key at the end, as a Python dict does). A float carries its
  value as a rational number: the program only ever compares one with 3001 and 3002.
\<close>

datatype json =
    JNull
  | JBool bool
  | JInt int
  | JFloat rat
  | JStr string
  | JList "json list"
  | JObj "(string \<times> json) list"

text \<open>The exceptions that escape the handlers of the program.\<close>

datatype exn = AttributeError | TypeError | OverflowError | UnicodeDecodeError

text \<open>\<open>bool(v)\<close>, the truth value that \<open>if v:\<close> and \<open>if not v:\<close> test.\<close>

fun py_truthy :: "json \<Rightarrow> bool" where
  "py_truthy JNull = False"
| "py_truthy (JBool b) = b"
| "py_truthy (JInt n) = (n \<noteq> 0)"
| "py_truthy (JFloat r) = (r \<noteq> 0)"
| "py_truthy (JStr s) = (s \<noteq> [])"
| "py_truthy (JList xs) = (xs \<noteq> [])"
| "py_truthy (JObj kv) = (kv \<noteq> [])"

text \<open>\<open>d.get(key, default)\<close> on a dict \<open>d\<close>.\<close>

definition dict_get :: "(string \<times> json) list \<Rightarrow> string \<Rightarrow> json \<Rightarrow> json" where
  "dict_get d key dflt = (case map_of d key of None \<Rightarrow> dflt | Some v \<Rightarrow> v)"

text \<open>
  The elements a \<open>for\<close> statement draws from a value: the items of a list, the keys
  of a dict, the characters of a string; anything else is not iterable.
\<close>

fun py_iter :: "json \<Rightarrow> exn + json list" where
  "py_iter (JList xs) = Inr xs"
| "py_iter (JObj kv) = Inr (map (\<lambda>(k, v). JStr k) kv)"
| "py_iter (JStr s) = Inr (map (\<lambda>c. JStr [c]) s)"
| "py_iter v = Inl TypeError"

text \<open>\<open>needle in hay\<close> on strings: the substring test.\<close>

fun contains_str :: "string \<Rightarrow> string \<Rightarrow> bool" where
  "contains_str needle [] = (needle = [])"
| "contains_str needle (c # cs) =
     (take (length needle) (c # cs) = needle \<or> contains_str needle cs)"

text \<open>
  \<open>error_code in (3001, 3002)\<close>: equality with one of the two integers. A float equals
  an integer of the same value, a boolean equals only 0 or 1, and no other value equals
  an integer.
\<close>

fun in_3001_3002 :: "json \<Rightarrow> bool" where
  "in_3001_3002 (JInt n) = (n = 3001 \<or> n = 3002)"
| "in_3001_3002 (JFloat r) = (r = 3001 \<or> r = 3002)"
| "in_3001_3002 v = False"

text \<open>
  \<open>str.strip()\<close>: the whitespace characters among the code points below 256 (a
  \<open>char\<close> stands for one such code point).
\<close>

definition is_space :: "char \<Rightarrow> bool" where
  "is_space c = (of_char c \<in> {9, 10, 11, 12, 13, 28, 29, 30, 31, 32, 133, 160 :: nat})"

definition strip :: "string \<Rightarrow> string" where
  "strip s = rev (dropWhile is_space (rev (dropWhile is_space s)))"

text \<open>
  \<open>round(x)\<close> with one argument: the nearest integer, a tie going to the even one.
  A float is the rational number it stands for.
\<close>

definition py_round :: "rat \<Rightarrow> int" where
  "py_round x =
     (let f = \<lfloor>x\<rfloor>; d = x - of_int f
      in if d < 1 / 2 then f else if 1 / 2 < d then f + 1 else if even f then f else f + 1)"

text \<open>
  The result of a float operation is the double nearest to the exact result, a tie going
  to the even significand: \<open>time.time() + 120\<close> is \<open>round_to_double (now + 120)\<close>.
  \<open>float_exponent x\<close> is the \<open>e\<close> with \<open>2 ^ e \<le> \<bar>x\<bar> < 2 ^ (e + 1)\<close>; a
  double has 53 significant bits, and below \<open>2 ^ (- 1022)\<close> the spacing stays that of the
  smallest normal numbers. Clock readings are far from the largest double, so no sum
  overflows.
\<close>

definition float_exponent :: "rat \<Rightarrow> int" where
  "float_exponent x =
     (case quotient_of \<bar>x\<bar> of
        (p, q) \<Rightarrow> (let e = bitlen p - bitlen q in if 2 powi e \<le> \<bar>x\<bar> then e else e - 1))"

definition round_to_double :: "rat \<Rightarrow> rat" where
  "round_to_double x =
     (if x = 0 then 0
      else (let ulp = 2 powi (max (float_exponent x) (- 1022) - 52)
            in of_int (py_round (x / ulp)) * ulp))"

section \<open>The world outside the process\<close>

text \<open>
  What \<open>os.stat\<close> and \<open>open\<close> accept as a path: a string, or an integer taken as
  a file descriptor. A node of the file system holds the text that \<open>read()\<close> returns,
  or cannot be opened (a directory, a file without permission), or opens but does not
  decode as text.
\<close>

datatype pathlike = Name string | Fd int

datatype fnode = Regular string | No_access | Bad_encoding

datatype level = INFO | WARNING | ERROR

text \<open>One constructor for each logging call of the source, with the values it formats.\<close>

datatype message =
    Private_key_not_found string
  | Issuer_not_found string
  | Failed_to_read_key_or_issuer
  | Token_generated
  | Jwt_error
  | Config_not_found json
  | Error_reading_file
  | No_username
  | Token_assigned json
  | Token_not_generated json
  | Unexpected_structure
  | File_saved string
  | Write_error
  | Check_permissions
  | No_tokens_generated
  | Connector_error_code json json
  | Connection_error_found
  | Restarting
  | Restart_sent int
  | Restart_failed
  | Sleep_for_minute
  | Request_failed int
  | Response_content string
  | Error_occurred

text \<open>
  The effects of the process, in the order they happen: log records, files opened for
  reading and for writing, calls of \<open>jwt.encode\<close> (payload and header), the two HTTP
  requests and the sleeps (in seconds).
\<close>

datatype event =
    Log level message
  | Open_read pathlike
  | Open_write string
  | Jwt_encode "(string \<times> json) list" "(string \<times> json) list"
  | Get_status
  | Put_restart
  | Sleep nat

text \<open>
  What becomes of a write to a path: it succeeds, or \<open>open(path, 'w')\<close> fails and the
  file is as it was, or the file is opened (and so emptied) and the write breaks off after
  some characters.
\<close>

datatype write_outcome = Write_ok | Open_fails | Write_fails nat

text \<open>
  \<open>files\<close> is the file system, \<open>write_outcome\<close> tells what becomes of a write to a
  path, \<open>time_at\<close> gives the reading of the \<open>n\<close>-th call of \<open>time.time()\<close> (a
  double) and \<open>ticks\<close> counts the calls made, \<open>trace\<close> is the list of the effects so
  far.
\<close>

record world =
  files :: "pathlike \<rightharpoonup> fnode"
  write_outcome :: "string \<Rightarrow> write_outcome"
  time_at :: "nat \<Rightarrow> rat"
  ticks :: nat
  trace :: "event list"

text \<open>
  The library functions the program calls and does not define: the JSON decoder and
  encoder (\<open>None\<close> is a \<open>JSONDecodeError\<close>), the PEM key loader and the signer
  (\<open>None\<close> is any exception they raise), the text an f-string gives for a value that is
  not a string, and \<open>os.path.dirname\<close> and \<open>os.path.join\<close>. The token that
  \<open>jwt.encode\<close> returns is a string (PyJWT 2).
\<close>

record 'k lib =
  json_loads :: "string \<Rightarrow> json option"
  json_dumps :: "json \<Rightarrow> string"
  load_pem_private_key :: "string \<Rightarrow> 'k option"
  jwt_encode :: "(string \<times> json) list \<Rightarrow> 'k \<Rightarrow> string \<Rightarrow> (string \<times> json) list \<Rightarrow> string option"
  format_value :: "json \<Rightarrow> string"
  path_dirname :: "string \<Rightarrow> string"
  path_join :: "string \<Rightarrow> string \<Rightarrow> string"

definition emit :: "event \<Rightarrow> world \<Rightarrow> world" where
  "emit e w = w\<lparr>trace := trace w @ [e]\<rparr>"

definition log :: "level \<Rightarrow> message \<Rightarrow> world \<Rightarrow> world" where
  "log l m w = emit (Log l m) w"

text \<open>\<open>time.time()\<close>.\<close>

definition time_time :: "world \<Rightarrow> rat \<times> world" where
  "time_time w = (time_at w (ticks w), w\<lparr>ticks := Suc (ticks w)\<rparr>)"

text \<open>
  The conversion of a path argument by \<open>os.stat\<close>: \<open>None\<close>, floats, lists and dicts
  are a \<open>TypeError\<close>, an integer outside the range of a C \<open>int\<close> is an
  \<open>OverflowError\<close>, a boolean is the integer 0 or 1.
\<close>

fun path_arg :: "json \<Rightarrow> exn + pathlike" where
  "path_arg (JStr p) = Inr (Name p)"
| "path_arg (JInt n) = (if - (2 ^ 31) \<le> n \<and> n < 2 ^ 31 then Inr (Fd n) else Inl OverflowError)"
| "path_arg (JBool b) = Inr (Fd (if b then 1 else 0))"
| "path_arg v = Inl TypeError"

text \<open>\<open>open(path, 'r')\<close> followed by \<open>read()\<close>.\<close>

datatype read_result = Text string | OS_error | Decode_error

definition read_file :: "pathlike \<Rightarrow> world \<Rightarrow> read_result \<times> world" where
  "read_file p w =
     (case files w p of
        None \<Rightarrow> OS_error
      | Some No_access \<Rightarrow> OS_error
      | Some Bad_encoding \<Rightarrow> Decode_error
      | Some (Regular t) \<Rightarrow> Text t,
      emit (Open_read p) w)"

section \<open>generate_jwt_token\<close>

definition generate_jwt_token :: "'k lib \<Rightarrow> string \<Rightarrow> string \<Rightarrow> world \<Rightarrow> string option \<times> world" where
  "generate_jwt_token L issuer_path private_key_path w =
     (if files w (Name private_key_path) = None
      then (None, log ERROR (Private_key_not_found private_key_path) w)
      else if files w (Name issuer_path) = None
      then (None, log ERROR (Issuer_not_found issuer_path) w)
      else
        (case read_file (Name private_key_path) w of
           (Text key_text, w1) \<Rightarrow>
             (case load_pem_private_key L key_text of
                None \<Rightarrow> (None, log ERROR Failed_to_read_key_or_issuer w1)
              | Some private_key \<Rightarrow>
                  (case read_file (Name issuer_path) w1 of
                     (Text issuer_text, w2) \<Rightarrow>
                       (case time_time w2 of
                          (now, w3) \<Rightarrow>
                            (let issuer_content = strip issuer_text;
                                 header = [(''typ'', JStr ''JWT''), (''alg'', JStr ''RS256'')];
                                 payload = [(''iss'', JStr issuer_content),
                                            (''exp'', JInt (py_round (round_to_double (now + 120))))];
                                 w4 = emit (Jwt_encode payload header) w3
                             in case jwt_encode L payload private_key ''RS256'' header of
                                  Some token \<Rightarrow> (Some token, log INFO Token_generated w4)
                                | None \<Rightarrow> (None, log ERROR Jwt_error w4)))
                   | (_, w2) \<Rightarrow> (None, log ERROR Failed_to_read_key_or_issuer w2)))
         | (_, w1) \<Rightarrow> (None, log ERROR Failed_to_read_key_or_issuer w1)))"

section \<open>update_connector_tokens\<close>

text \<open>
  A \<open>for\<close> loop whose body may assign to the element it visits and may raise: the
  loop returns the exception (if any), the list with the elements visited so far as the
  body left them, and the state. Nothing of a decoded document is shared between two
  places, so the assignment to one connector is seen nowhere else.
\<close>

fun for_each :: "('a \<Rightarrow> 's \<Rightarrow> exn option \<times> 'a \<times> 's) \<Rightarrow> 'a list \<Rightarrow> 's \<Rightarrow> exn option \<times> 'a list \<times> 's" where
  "for_each body [] s = (None, [], s)"
| "for_each body (x # xs) s =
     (case body x s of
        (Some e, x', s') \<Rightarrow> (Some e, x' # xs, s')
      | (None, x', s') \<Rightarrow>
          (case for_each body xs s' of (r, xs', s'') \<Rightarrow> (r, x' # xs', s'')))"

definition zello :: string where
  "zello = ''zello-channel-api''"

text \<open>The text of a value inside an f-string.\<close>

definition py_str :: "'k lib \<Rightarrow> json \<Rightarrow> string" where
  "py_str L v = (case v of JStr s \<Rightarrow> s | _ \<Rightarrow> format_value L v)"

text \<open>\<open>if new_token:\<close> on the result of the token generator.\<close>

definition token_truthy :: "string option \<Rightarrow> bool" where
  "token_truthy t = (case t of None \<Rightarrow> False | Some s \<Rightarrow> s \<noteq> [])"

text \<open>
  The body of the inner loop (source lines 115 to 139), on the pair of
  \<open>changes_made\<close> and the world. A connector that is not a dict has no \<open>get\<close>.
\<close>

fun process_connector :: "'k lib \<Rightarrow> string \<Rightarrow> json \<Rightarrow> bool \<times> world \<Rightarrow> exn option \<times> json \<times> (bool \<times> world)" where
  "process_connector L base_dir (JObj c) (changes_made, w) =
     (if dict_get c ''type'' JNull = JStr zello then
        (let username = dict_get c ''username'' JNull in
         if \<not> py_truthy username
         then (None, JObj c, (changes_made, log WARNING No_username w))
         else
           (let private_key_path = path_join L base_dir (py_str L username @ ''.pem'');
                issuer_path = path_join L base_dir (py_str L username @ ''.txt'')
            in case generate_jwt_token L issuer_path private_key_path w of
                 (new_token, w1) \<Rightarrow>
                   if token_truthy new_token
                   then (None, JObj (AList.update ''token'' (JStr (the new_token)) c),
                         (True, log INFO (Token_assigned (dict_get c ''name'' (JStr ''N/A''))) w1))
                   else (None, JObj c,
                         (changes_made, log ERROR (Token_not_generated (dict_get c ''name'' (JStr ''N/A''))) w1))))
      else (None, JObj c, (changes_made, w)))"
| "process_connector L base_dir v s = (Some AttributeError, v, s)"

text \<open>
  The body of the outer loop (source lines 113 and 114). \<open>'connectors' in link\<close> is
  the key test on a dict, the membership test on a list, the substring test on a string,
  and a \<open>TypeError\<close> on anything else; \<open>link['connectors']\<close> is a \<open>TypeError\<close>
  on a list and on a string.
\<close>

fun process_link :: "'k lib \<Rightarrow> string \<Rightarrow> json \<Rightarrow> bool \<times> world \<Rightarrow> exn option \<times> json \<times> (bool \<times> world)" where
  "process_link L base_dir (JObj l) s =
     (case map_of l ''connectors'' of
        Some (JList cs) \<Rightarrow>
          (case for_each (process_connector L base_dir) cs s of
             (r, cs', s') \<Rightarrow> (r, JObj (AList.update ''connectors'' (JList cs') l), s'))
      | _ \<Rightarrow> (None, JObj l, s))"
| "process_link L base_dir (JList xs) s =
     (if JStr ''connectors'' \<in> set xs then (Some TypeError, JList xs, s) else (None, JList xs, s))"
| "process_link L base_dir (JStr t) s =
     (if contains_str ''connectors'' t then (Some TypeError, JStr t, s) else (None, JStr t, s))"
| "process_link L base_dir v s = (Some TypeError, v, s)"

text \<open>
  The test of source line 107:
  \<open>isinstance(data, dict) and 'links' in data and isinstance(data['links'], list)\<close>.
\<close>

fun has_links_list :: "json \<Rightarrow> bool" where
  "has_links_list (JObj d) = (case map_of d ''links'' of Some (JList links) \<Rightarrow> True | _ \<Rightarrow> False)"
| "has_links_list v = False"

text \<open>
  The two loops over the document (source lines 104 to 139): they return the document
  as the assignments left it, and \<open>changes_made\<close>.
\<close>

definition refresh_document :: "'k lib \<Rightarrow> string \<Rightarrow> json \<Rightarrow> world \<Rightarrow> exn option \<times> json \<times> (bool \<times> world)" where
  "refresh_document L base_dir data w =
     (case data of
        JObj d \<Rightarrow>
          (case map_of d ''links'' of
             Some (JList links) \<Rightarrow>
               (case for_each (process_link L base_dir) links (False, w) of
                  (r, links', s') \<Rightarrow> (r, JObj (AList.update ''links'' (JList links') d), s'))
           | _ \<Rightarrow> (None, data, (False, w)))
      | _ \<Rightarrow> (None, data, (False, w)))"

text \<open>
  Source lines 145 to 154. When \<open>open(file_path, 'w')\<close> fails the file is as it was.
  When it succeeds the file is empty, and \<open>json.dump\<close> writes the encoding into it: all
  of it, or, where the write breaks off, a first part of it. Every exception is handled at
  line 150 with the two error records.
\<close>

definition save_document :: "'k lib \<Rightarrow> string \<Rightarrow> json \<Rightarrow> world \<Rightarrow> world" where
  "save_document L file_path data w =
     (let w1 = emit (Open_write file_path) w
      in case write_outcome w1 file_path of
           Open_fails \<Rightarrow> log ERROR Check_permissions (log ERROR Write_error w1)
         | Write_fails n \<Rightarrow>
             log ERROR Check_permissions (log ERROR Write_error
               (w1\<lparr>files := (files w1)(Name file_path \<mapsto> Regular (take n (json_dumps L data)))\<rparr>))
         | Write_ok \<Rightarrow>
             log INFO (File_saved file_path)
               (w1\<lparr>files := (files w1)(Name file_path \<mapsto> Regular (json_dumps L data))\<rparr>))"

text \<open>
  The function (source lines 83 to 154), on the value it is called with: the status
  snapshot's \<open>config_file\<close>, \<open>None\<close> when the snapshot has none. A first result
  \<open>Some e\<close> is the exception \<open>e\<close> leaving the function. \<open>os.path.exists\<close> raises
  what the conversion of its argument raises, the decoding error of \<open>json.load\<close> is
  not among the exceptions line 100 handles, and \<open>os.path.dirname\<close> is a
  \<open>TypeError\<close> on a path that is not a string.
\<close>

definition update_connector_tokens :: "'k lib \<Rightarrow> json \<Rightarrow> world \<Rightarrow> exn option \<times> world" where
  "update_connector_tokens L file_path w =
     (case path_arg file_path of
        Inl e \<Rightarrow> (Some e, w)
      | Inr p \<Rightarrow>
          if files w p = None then (None, log ERROR (Config_not_found file_path) w)
          else
            (case read_file p w of
               (OS_error, w1) \<Rightarrow> (None, log ERROR Error_reading_file w1)
             | (Decode_error, w1) \<Rightarrow> (Some UnicodeDecodeError, w1)
             | (Text text, w1) \<Rightarrow>
                 (case json_loads L text of
                    None \<Rightarrow> (None, log ERROR Error_reading_file w1)
                  | Some data \<Rightarrow>
                      if has_links_list data then
                        (case file_path of
                           JStr path \<Rightarrow>
                             (case refresh_document L (path_dirname L path) data w1 of
                                (Some e, data', (changes_made, w2)) \<Rightarrow> (Some e, w2)
                              | (None, data', (changes_made, w2)) \<Rightarrow>
                                  if changes_made
                                  then (None, save_document L path data' w2)
                                  else (None, log INFO No_tokens_generated w2))
                         | _ \<Rightarrow> (Some TypeError, w1))
                      else (None, log ERROR Unexpected_structure w1))))"

section \<open>main\<close>

text \<open>A \<open>for\<close> loop whose body only reads the element and may raise.\<close>

fun for_in :: "('a \<Rightarrow> 's \<Rightarrow> exn option \<times> 's) \<Rightarrow> 'a list \<Rightarrow> 's \<Rightarrow> exn option \<times> 's" where
  "for_in body [] s = (None, s)"
| "for_in body (x # xs) s =
     (case body x s of
        (Some e, s') \<Rightarrow> (Some e, s')
      | (None, s') \<Rightarrow> for_in body xs s')"

text \<open>
  The answer to an HTTP request: a response with its status code and body, or a
  \<open>RequestException\<close> (no connection, a timeout).
\<close>

datatype http_result = Response int string | Request_exception

text \<open>
  The body of the inner loop of \<open>main\<close> (source lines 182 to 190), on the pair of
  \<open>found_error\<close> and the world.
\<close>

fun inspect_connector :: "json \<Rightarrow> bool \<times> world \<Rightarrow> exn option \<times> (bool \<times> world)" where
  "inspect_connector (JObj c) (found_error, w) =
     (if dict_get c ''type'' JNull = JStr zello then
        (case dict_get c ''last_error'' (JObj []) of
           JObj e \<Rightarrow>
             (let error_code = dict_get e ''code'' JNull;
                  w1 = log INFO (Connector_error_code (dict_get c ''name'' (JStr ''N/A'')) error_code) w
              in (None, (if in_3001_3002 error_code then True else found_error, w1)))
         | _ \<Rightarrow> (Some AttributeError, (found_error, w)))
      else (None, (found_error, w)))"
| "inspect_connector v s = (Some AttributeError, s)"

text \<open>The body of the outer loop of \<open>main\<close> (source lines 180 and 181).\<close>

fun inspect_link :: "json \<Rightarrow> bool \<times> world \<Rightarrow> exn option \<times> (bool \<times> world)" where
  "inspect_link (JObj l) s =
     (case py_iter (dict_get l ''connectors'' (JList [])) of
        Inl e \<Rightarrow> (Some e, s)
      | Inr cs \<Rightarrow> for_in inspect_connector cs s)"
| "inspect_link v s = (Some AttributeError, s)"

text \<open>
  Source lines 173 to 190: \<open>config_path\<close> and \<open>found_error\<close> of a decoded status
  snapshot.
\<close>

fun scan_status :: "json \<Rightarrow> world \<Rightarrow> exn option \<times> json \<times> (bool \<times> world)" where
  "scan_status (JObj d) w =
     (let config_path = dict_get d ''config_file'' JNull
      in case py_iter (dict_get d ''links'' (JList [])) of
           Inl e \<Rightarrow> (Some e, config_path, (False, w))
         | Inr links \<Rightarrow>
             (case for_in inspect_link links (False, w) of (r, s) \<Rightarrow> (r, config_path, s)))"
| "scan_status v w = (Some AttributeError, JNull, (False, w))"

text \<open>
  Source lines 193 to 206, the remediation: the tokens, the restart request (its answer is
  \<open>restart_reply\<close>) and the minute of sleep.
\<close>

definition remediate :: "'k lib \<Rightarrow> http_result \<Rightarrow> json \<Rightarrow> world \<Rightarrow> exn option \<times> world" where
  "remediate L restart_reply config_path w =
     (case update_connector_tokens L config_path (log INFO Connection_error_found w) of
        (Some e, w1) \<Rightarrow> (Some e, w1)
      | (None, w1) \<Rightarrow>
          (let w2 = emit Put_restart (log INFO Restarting w1);
               w3 = (case restart_reply of
                       Response status_code body \<Rightarrow> log INFO (Restart_sent status_code) w2
                     | Request_exception \<Rightarrow> log ERROR Restart_failed w2)
           in (None, emit (Sleep 60) (log INFO Sleep_for_minute w3))))"

text \<open>
  One turn of the \<open>while True\<close> loop (source lines 164 to 219), given the answers to
  the status request and to the restart request (asked for only in a remediation). A body
  that does not decode makes \<open>response.json()\<close> raise a \<open>RequestException\<close> of its
  own (requests 2.27 and later), which the handler of line 213 takes. Every other exception
  leaves the loop and ends the process.
\<close>

definition main_iteration :: "'k lib \<Rightarrow> http_result \<Rightarrow> http_result \<Rightarrow> world \<Rightarrow> exn option \<times> world" where
  "main_iteration L status_reply restart_reply w =
     (case
        (case status_reply of
           Request_exception \<Rightarrow> (None, log ERROR Error_occurred (emit Get_status w))
         | Response status_code body \<Rightarrow>
             if status_code = 200 then
               (case json_loads L body of
                  None \<Rightarrow> (None, log ERROR Error_occurred (emit Get_status w))
                | Some data \<Rightarrow>
                    (case scan_status data (emit Get_status w) of
                       (Some e, config_path, (found_error, w1)) \<Rightarrow> (Some e, w1)
                     | (None, config_path, (found_error, w1)) \<Rightarrow>
                         if found_error then remediate L restart_reply config_path w1
                         else (None, w1)))
             else (None, log ERROR (Response_content body)
                           (log ERROR (Request_failed status_code) (emit Get_status w))))
      of
        (Some e, w') \<Rightarrow> (Some e, w')
      | (None, w') \<Rightarrow> (None, emit (Sleep 1) w'))"

text \<open>
  The loop, run on the answers the bridge gives to its first polls: it stops where an
  exception leaves it.
\<close>

fun main :: "'k lib \<Rightarrow> (http_result \<times> http_result) list \<Rightarrow> world \<Rightarrow> exn option \<times> world" where
  "main L [] w = (None, w)"
| "main L ((status_reply, restart_reply) # replies) w =
     (case main_iteration L status_reply restart_reply w of
        (Some e, w') \<Rightarrow> (Some e, w')
      | (None, w') \<Rightarrow> main L replies w')"

section \<open>Notions of the statements\<close>

text \<open>The effects between an earlier world and a later one.\<close>

definition emitted :: "world \<Rightarrow> world \<Rightarrow> event list" where
  "emitted w w' = drop (length (trace w)) (trace w')"

text \<open>
  The record of source line 136, written exactly where a token is assigned to a connector,
  and the opening of a file for writing.
\<close>

fun is_token_assigned :: "event \<Rightarrow> bool" where
  "is_token_assigned (Log l (Token_assigned n)) = True"
| "is_token_assigned e = False"

fun is_open_write :: "event \<Rightarrow> bool" where
  "is_open_write (Open_write p) = True"
| "is_open_write e = False"

text \<open>
  The shape of a status snapshot and of a configuration document: \<open>links\<close> is a list
  of dicts (or is missing), the \<open>connectors\<close> of a link is a list of dicts (or is
  missing), the \<open>last_error\<close> of a connector is a dict (or is missing).
\<close>

fun links_of :: "json \<Rightarrow> json list" where
  "links_of (JObj d) = (case map_of d ''links'' of Some (JList ls) \<Rightarrow> ls | _ \<Rightarrow> [])"
| "links_of v = []"

fun connectors_of :: "json \<Rightarrow> json list" where
  "connectors_of (JObj l) = (case map_of l ''connectors'' of Some (JList cs) \<Rightarrow> cs | _ \<Rightarrow> [])"
| "connectors_of v = []"

fun wf_connector :: "json \<Rightarrow> bool" where
  "wf_connector (JObj c) = (case map_of c ''last_error'' of None \<Rightarrow> True | Some (JObj e) \<Rightarrow> True | _ \<Rightarrow> False)"
| "wf_connector v = False"

fun wf_link :: "json \<Rightarrow> bool" where
  "wf_link (JObj l) =
     (case map_of l ''connectors'' of
        None \<Rightarrow> True
      | Some (JList cs) \<Rightarrow> list_all wf_connector cs
      | _ \<Rightarrow> False)"
| "wf_link v = False"

fun wf_snapshot :: "json \<Rightarrow> bool" where
  "wf_snapshot (JObj d) =
     (case map_of d ''links'' of
        None \<Rightarrow> True
      | Some (JList ls) \<Rightarrow> list_all wf_link ls
      | _ \<Rightarrow> False)"
| "wf_snapshot v = False"

text \<open>\<open>last_error.code\<close> of a connector, \<open>None\<close> where there is no \<open>last_error\<close>.\<close>

definition connector_code :: "(string \<times> json) list \<Rightarrow> json" where
  "connector_code c = (case map_of c ''last_error'' of Some (JObj e) \<Rightarrow> dict_get e ''code'' JNull | _ \<Rightarrow> JNull)"

text \<open>
  The failure signature: a connector of type \<open>zello-channel-api\<close> whose
  \<open>last_error.code\<close> is 3001 or 3002, anywhere in the snapshot.
\<close>

fun failing_connector :: "json \<Rightarrow> bool" where
  "failing_connector (JObj c) =
     (map_of c ''type'' = Some (JStr ''zello-channel-api'') \<and>
      connector_code c \<in> {JInt 3001, JInt 3002, JFloat 3001, JFloat 3002})"
| "failing_connector v = False"

definition has_auth_error :: "json \<Rightarrow> bool" where
  "has_auth_error data = list_ex (\<lambda>l. list_ex failing_connector (connectors_of l)) (links_of data)"

text \<open>The records of the scan: one for each connector of the type, in document order.\<close>

fun connector_log :: "json \<Rightarrow> event list" where
  "connector_log (JObj c) =
     (if map_of c ''type'' = Some (JStr zello)
      then [Log INFO (Connector_error_code (dict_get c ''name'' (JStr ''N/A'')) (connector_code c))]
      else [])"
| "connector_log v = []"

definition scan_log :: "json \<Rightarrow> event list" where
  "scan_log data = concat (map (\<lambda>l. concat (map connector_log (connectors_of l))) (links_of data))"

text \<open>\<open>config_path\<close> of a snapshot: its \<open>config_file\<close>, \<open>None\<close> when it has none.\<close>

fun config_file_of :: "json \<Rightarrow> json" where
  "config_file_of (JObj d) = dict_get d ''config_file'' JNull"
| "config_file_of v = JNull"

text \<open>
  A document and the document a pass leaves: equal but for the \<open>token\<close> of connectors
  of type \<open>zello-channel-api\<close>. Every key keeps its place and every other value is the
  same.
\<close>

fun connector_frame :: "json \<Rightarrow> json \<Rightarrow> bool" where
  "connector_frame (JObj c) (JObj c') =
     (c' = c \<or>
      (map_of c ''type'' = Some (JStr zello) \<and>
       (case map_of c' ''token'' of Some (JStr t) \<Rightarrow> c' = AList.update ''token'' (JStr t) c | _ \<Rightarrow> False)))"
| "connector_frame v v' = (v' = v)"

fun link_frame :: "json \<Rightarrow> json \<Rightarrow> bool" where
  "link_frame (JObj l) (JObj l') =
     (l' = l \<or>
      (case (map_of l ''connectors'', map_of l' ''connectors'') of
         (Some (JList cs), Some (JList cs')) \<Rightarrow>
           list_all2 connector_frame cs cs' \<and> l' = AList.update ''connectors'' (JList cs') l
       | _ \<Rightarrow> False))"
| "link_frame v v' = (v' = v)"

fun document_frame :: "json \<Rightarrow> json \<Rightarrow> bool" where
  "document_frame (JObj d) (JObj d') =
     (d' = d \<or>
      (case (map_of d ''links'', map_of d' ''links'') of
         (Some (JList ls), Some (JList ls')) \<Rightarrow>
           list_all2 link_frame ls ls' \<and> d' = AList.update ''links'' (JList ls') d
       | _ \<Rightarrow> False))"
| "document_frame v v' = (v' = v)"

text \<open>
  The token a step of the inner loop gets for a connector: the text the generator returns
  for the key and issuer files of its \<open>username\<close>, when the connector is of the type,
  has a \<open>username\<close> and the text is not empty.
\<close>

definition generated_token :: "'k lib \<Rightarrow> string \<Rightarrow> (string \<times> json) list \<Rightarrow> world \<Rightarrow> string option" where
  "generated_token L base_dir c w =
     (if dict_get c ''type'' JNull = JStr ''zello-channel-api'' \<and> py_truthy (dict_get c ''username'' JNull)
      then (case fst (generate_jwt_token L
                        (path_join L base_dir (py_str L (dict_get c ''username'' JNull) @ ''.txt''))
                        (path_join L base_dir (py_str L (dict_get c ''username'' JNull) @ ''.pem'')) w) of
              Some token \<Rightarrow> if token = [] then None else Some token
            | None \<Rightarrow> None)
      else None)"

text \<open>The record of the answer to the restart request (source lines 200 and 202).\<close>

definition restart_record :: "http_result \<Rightarrow> event" where
  "restart_record restart_reply =
     (case restart_reply of
        Response status_code body \<Rightarrow> Log INFO (Restart_sent status_code)
      | Request_exception \<Rightarrow> Log ERROR Restart_failed)"

text \<open>
  What every step of the two loops of \<open>update_connector_tokens\<close> keeps: the trace
  grows, the files stay, no file is opened for writing, and \<open>changes_made\<close> is set
  exactly when a token is assigned.
\<close>

definition pass_step :: "bool \<times> world \<Rightarrow> bool \<times> world \<Rightarrow> bool" where
  "pass_step s s' =
     (\<exists>evs. trace (snd s') = trace (snd s) @ evs \<and>
            files (snd s') = files (snd s) \<and>
            write_outcome (snd s') = write_outcome (snd s) \<and>
            \<not> list_ex is_open_write evs \<and>
            (fst s' \<longleftrightarrow> fst s \<or> list_ex is_token_assigned evs))"

section \<open>A bridge with three connectors\<close>

text \<open>
  A configuration in \<open>/etc/zb\<close>: connector A of user alice, whose key and issuer files
  are in place, connector B of user bob, who has none, and a connector of another type.
  The second document is the first after a refresh. The example signer returns a text
  made of the issuer claim. The clock reads a quarter of a second past 1700000000 at the
  first call, and every write succeeds.
\<close>

definition alice :: "string \<Rightarrow> json" where
  "alice token =
     JObj [(''type'', JStr zello), (''username'', JStr ''alice''), (''name'', JStr ''A''),
           (''token'', JStr token), (''channel'', JStr ''ops'')]"

definition bob :: json where
  "bob = JObj [(''type'', JStr zello), (''username'', JStr ''bob''), (''name'', JStr ''B''),
               (''token'', JStr ''old-b'')]"

definition radio :: json where
  "radio = JObj [(''type'', JStr ''radio''), (''token'', JStr ''r'')]"

definition example_config :: "string \<Rightarrow> json" where
  "example_config token =
     JObj [(''version'', JInt 2),
           (''links'', JList [JObj [(''id'', JInt 7), (''connectors'', JList [bob, alice token, radio])]])]"

definition example_status :: "int \<Rightarrow> json" where
  "example_status code =
     JObj [(''config_file'', JStr ''/etc/zb/config.json''),
           (''links'', JList [JObj [(''connectors'',
              JList [JObj [(''type'', JStr zello), (''name'', JStr ''A''),
                           (''last_error'', JObj [(''code'', JInt code)])],
                     radio])]])]"

definition status_without_config_file :: json where
  "status_without_config_file =
     JObj [(''links'', JList [JObj [(''connectors'',
              JList [JObj [(''type'', JStr zello), (''name'', JStr ''A''),
                           (''last_error'', JObj [(''code'', JInt 3001)])]])]])]"

text \<open>
  A snapshot whose second link has \<open>connectors\<close> null, after a first link with a
  connector in error 3001; and a configuration whose list of connectors ends with a
  string.
\<close>

definition status_with_null_connectors :: json where
  "status_with_null_connectors =
     JObj [(''config_file'', JStr ''/etc/zb/config.json''),
           (''links'', JList
              [JObj [(''connectors'',
                 JList [JObj [(''type'', JStr zello), (''name'', JStr ''A''),
                              (''last_error'', JObj [(''code'', JInt 3001)])]])],
               JObj [(''connectors'', JNull)]])]"

definition config_with_string_connector :: json where
  "config_with_string_connector =
     JObj [(''version'', JInt 2),
           (''links'', JList [JObj [(''id'', JInt 7),
              (''connectors'', JList [bob, alice ''old-a'', JStr ''spare''])]])]"

definition example_lib :: "string lib" where
  "example_lib =
     \<lparr>json_loads = (\<lambda>s.
          if s = ''<config>'' then Some (example_config ''old-a'')
          else if s = ''<refreshed config>'' then Some (example_config ''jwt:alice-issuer'')
          else if s = ''<status 3001>'' then Some (example_status 3001)
          else if s = ''<status 4004>'' then Some (example_status 4004)
          else if s = ''<status without config_file>'' then Some status_without_config_file
          else if s = ''<status with null connectors>'' then Some status_with_null_connectors
          else if s = ''<config with a string connector>'' then Some config_with_string_connector
          else if s = ''[]'' then Some (JList [])
          else None),
       json_dumps = (\<lambda>d.
          if d = example_config ''jwt:alice-issuer'' then ''<refreshed config>''
          else if d = example_config ''old-a'' then ''<config>''
          else ''<other>''),
       load_pem_private_key = (\<lambda>s. if s = ''<alice key>'' then Some ''alice-rsa'' else None),
       jwt_encode = (\<lambda>payload key alg header.
          case map_of payload ''iss'' of Some (JStr i) \<Rightarrow> Some (''jwt:'' @ i) | _ \<Rightarrow> None),
       format_value = (\<lambda>v. ''?''),
       path_dirname = (\<lambda>p. butlast (rev (dropWhile (\<lambda>c. c \<noteq> CHR ''/'') (rev p)))),
       path_join = (\<lambda>a b. a @ ''/'' @ b)\<rparr>"

definition example_world :: "string \<Rightarrow> world" where
  "example_world config_text =
     \<lparr>files = [Name ''/etc/zb/alice.pem'' \<mapsto> Regular ''<alice key>'',
               Name ''/etc/zb/alice.txt'' \<mapsto> Regular ('' alice-issuer'' @ [CHR 0x0A]),
               Name ''/etc/zb/config.json'' \<mapsto> Regular config_text],
      write_outcome = (\<lambda>p. Write_ok),
      time_at = (\<lambda>n. 1700000000 + 1 / 4 + of_nat n),
      ticks = 0,
      trace = []\<rparr>"


section \<open>Basic facts\<close>

lemma emit_simps [simp]:
  "trace (emit e w) = trace w @ [e]"
  "files (emit e w) = files w"
  "ticks (emit e w) = ticks w"
  "write_outcome (emit e w) = write_outcome w"
  "time_at (emit e w) = time_at w"
  by (simp_all add: emit_def)

lemma log_simps [simp]:
  "trace (log l m w) = trace w @ [Log l m]"
  "files (log l m w) = files w"
  "ticks (log l m w) = ticks w"
  "write_outcome (log l m w) = write_outcome w"
  "time_at (log l m w) = time_at w"
  by (simp_all add: log_def)

lemma emitted_append: "trace w' = trace w @ evs \<Longrightarrow> emitted w w' = evs"
  by (simp add: emitted_def)

lemma py_round_nearest: "\<bar>of_int (py_round x) - x\<bar> \<le> 1 / 2"
proof -
  have "of_int \<lfloor>x\<rfloor> \<le> x" and "x < of_int \<lfloor>x\<rfloor> + 1"
    by linarith+
  then show ?thesis
    by (auto simp: py_round_def Let_def)
qed

lemma round_to_double_error:
  assumes "0 < u"
  shows "\<bar>of_int (py_round (x / u)) * u - x\<bar> \<le> u / 2"
proof -
  have "\<bar>of_int (py_round (x / u)) * u - x\<bar> = \<bar>of_int (py_round (x / u)) - x / u\<bar> * u"
    using assms by (simp add: abs_mult_pos' [symmetric] field_simps del: abs_mult_pos')
  also have "\<dots> \<le> (1 / 2) * u"
    using py_round_nearest [of "x / u"] assms by (intro mult_right_mono) auto
  finally show ?thesis by simp
qed

lemma float_exponent_le:
  assumes "x \<noteq> 0" and "\<bar>x\<bar> < 2 ^ 53"
  shows "float_exponent x \<le> 52"
proof -
  obtain p q where pq: "quotient_of \<bar>x\<bar> = (p, q)"
    by (cases "quotient_of \<bar>x\<bar>") auto
  then have q: "0 < q" and x: "\<bar>x\<bar> = of_int p / of_int q"
    using quotient_of_denom_pos [OF pq] quotient_of_div [OF pq] by auto
  from assms(1) have "0 < \<bar>x\<bar>" by simp
  with x q have p: "0 < p"
    by (simp add: zero_less_divide_iff)
  let ?e = "bitlen p - bitlen q"
  show ?thesis
  proof (cases "2 powi ?e \<le> \<bar>x\<bar>")
    case True
    with assms(2) have "(2::rat) powi ?e < 2 powi 53"
      by simp
    then have "?e < 53"
      by (rule power_int_le_imp_less_exp [rotated]) simp_all
    with True pq show ?thesis
      by (simp add: float_exponent_def Let_def)
  next
    case False
    from assms(2) x q have "of_int p < (2::rat) ^ 53 * of_int q"
      by (simp add: pos_divide_less_eq)
    then have "p < 2 ^ 53 * q"
      by (metis of_int_less_iff of_int_mult of_int_numeral of_int_power)
    also from bitlen_bounds [OF q] have "\<dots> < 2 ^ 53 * 2 ^ nat (bitlen q)"
      by simp
    finally have "p < 2 ^ (53 + nat (bitlen q))"
      by (simp add: power_add)
    with bitlen_bounds [OF p] have "(2::int) ^ nat (bitlen p - 1) < 2 ^ (53 + nat (bitlen q))"
      by linarith
    then have "nat (bitlen p - 1) < 53 + nat (bitlen q)"
      by simp
    with bitlen_nonneg [of q] have "?e \<le> 53"
      by linarith
    with False pq show ?thesis
      by (simp add: float_exponent_def Let_def)
  qed
qed

text \<open>Below \<open>2 ^ 53\<close> a float sum is at most half a unit away from the exact sum.\<close>

lemma round_to_double_near:
  assumes "\<bar>x\<bar> < 2 ^ 53"
  shows "\<bar>round_to_double x - x\<bar> \<le> 1 / 2"
proof (cases "x = 0")
  case True
  then show ?thesis by (simp add: round_to_double_def)
next
  case False
  let ?k = "max (float_exponent x) (- 1022) - 52"
  let ?u = "(2::rat) powi ?k"
  from float_exponent_le [OF False assms] have "?k \<le> 0"
    by simp
  then have "?u \<le> 2 powi 0"
    by (intro power_int_increasing) auto
  then have u1: "?u \<le> 1" by simp
  have u0: "0 < ?u" by simp
  from round_to_double_error [OF u0, of x] u1 False show ?thesis
    by (simp add: round_to_double_def Let_def)
qed

lemma round_to_double_examples:
  "round_to_double (1 / 10) = 3602879701896397 / 36028797018963968"
  "round_to_double (9007198757715967 / 4194304 + 120) = 4294967299 / 2"
  by code_simp+

lemma in_3001_3002_iff:
  "in_3001_3002 v \<longleftrightarrow> v \<in> {JInt 3001, JInt 3002, JFloat 3001, JFloat 3002}"
  by (cases v) auto

lemma py_round_ties_to_even: "py_round (5 / 2) = 2" "py_round (7 / 2) = 4" "py_round (- 5 / 2) = - 2"
  by code_simp+

lemma dict_get_type:
  "dict_get c ''type'' JNull = JStr zello \<longleftrightarrow> map_of c ''type'' = Some (JStr zello)"
  by (auto simp: dict_get_def split: option.splits)

lemma has_links_list_iff:
  "has_links_list data \<longleftrightarrow> (\<exists>d ls. data = JObj d \<and> map_of d ''links'' = Some (JList ls))"
  by (cases data) (auto split: option.splits json.splits)

subsection \<open>The example, evaluated\<close>

lemma example_exp: "py_round (round_to_double (6800000481 / 4)) = 1700000120"
  by code_simp

lemmas example_defs =
  update_connector_tokens_def example_world_def example_lib_def read_file_def
  refresh_document_def example_config_def bob_def alice_def radio_def zello_def
  dict_get_def py_str_def generate_jwt_token_def save_document_def token_truthy_def
  time_time_def strip_def is_space_def example_exp Let_def emit_def log_def

lemma alice_token:
  "generate_jwt_token example_lib ''/etc/zb/alice.txt'' ''/etc/zb/alice.pem'' (example_world ''<config>'') =
     (Some ''jwt:alice-issuer'',
      (example_world ''<config>'')
        \<lparr>ticks := 1,
         trace := [Open_read (Name ''/etc/zb/alice.pem''), Open_read (Name ''/etc/zb/alice.txt''),
                   Jwt_encode [(''iss'', JStr ''alice-issuer''), (''exp'', JInt 1700000120)]
                              [(''typ'', JStr ''JWT''), (''alg'', JStr ''RS256'')],
                   Log INFO Token_generated]\<rparr>)"
  by (simp add: example_defs)

text \<open>
  A pass over the example configuration, after any trace \<open>t\<close>: bob's key is missing,
  alice gets a token, the document is saved. The pass is the same whether the token in the
  file is an old one or the very token the signer returns.
\<close>

lemma example_pass:
  "update_connector_tokens example_lib (JStr ''/etc/zb/config.json'')
     ((example_world ''<config>'')\<lparr>trace := t\<rparr>) =
     (None,
      (example_world ''<refreshed config>'')
        \<lparr>ticks := 1,
         trace := t @
           [Open_read (Name ''/etc/zb/config.json''),
            Log ERROR (Private_key_not_found ''/etc/zb/bob.pem''),
            Log ERROR (Token_not_generated (JStr ''B'')),
            Open_read (Name ''/etc/zb/alice.pem''),
            Open_read (Name ''/etc/zb/alice.txt''),
            Jwt_encode [(''iss'', JStr ''alice-issuer''), (''exp'', JInt 1700000120)]
                       [(''typ'', JStr ''JWT''), (''alg'', JStr ''RS256'')],
            Log INFO Token_generated,
            Log INFO (Token_assigned (JStr ''A'')),
            Open_write ''/etc/zb/config.json'',
            Log INFO (File_saved ''/etc/zb/config.json'')]\<rparr>)"
  by (simp add: example_defs)

lemma example_refresh:
  "refresh_document example_lib ''/etc/zb'' (example_config token)
      (emit (Open_read (Name ''/etc/zb/config.json'')) (example_world config_text)) =
     (None, example_config ''jwt:alice-issuer'',
      (True, (example_world config_text)
        \<lparr>ticks := 1,
         trace :=
           [Open_read (Name ''/etc/zb/config.json''),
            Log ERROR (Private_key_not_found ''/etc/zb/bob.pem''),
            Log ERROR (Token_not_generated (JStr ''B'')),
            Open_read (Name ''/etc/zb/alice.pem''),
            Open_read (Name ''/etc/zb/alice.txt''),
            Jwt_encode [(''iss'', JStr ''alice-issuer''), (''exp'', JInt 1700000120)]
                       [(''typ'', JStr ''JWT''), (''alg'', JStr ''RS256'')],
            Log INFO Token_generated,
            Log INFO (Token_assigned (JStr ''A''))]\<rparr>))"
  by (simp add: example_defs)

lemma example_pass_again:
  "update_connector_tokens example_lib (JStr ''/etc/zb/config.json'') (example_world ''<refreshed config>'') =
     (None,
      (example_world ''<refreshed config>'')
        \<lparr>ticks := 1,
         trace :=
           [Open_read (Name ''/etc/zb/config.json''),
            Log ERROR (Private_key_not_found ''/etc/zb/bob.pem''),
            Log ERROR (Token_not_generated (JStr ''B'')),
            Open_read (Name ''/etc/zb/alice.pem''),
            Open_read (Name ''/etc/zb/alice.txt''),
            Jwt_encode [(''iss'', JStr ''alice-issuer''), (''exp'', JInt 1700000120)]
                       [(''typ'', JStr ''JWT''), (''alg'', JStr ''RS256'')],
            Log INFO Token_generated,
            Log INFO (Token_assigned (JStr ''A'')),
            Open_write ''/etc/zb/config.json'',
            Log INFO (File_saved ''/etc/zb/config.json'')]\<rparr>)"
  by (simp add: example_defs)

subsection \<open>The loops\<close>

text \<open>
  A relation that every run of the body keeps, and that is reflexive and transitive, holds
  between the state before a loop and the state after it, whether the loop ends or raises.
\<close>

lemma for_each_invariant:
  assumes step: "\<And>x s e x' s'. body x s = (e, x', s') \<Longrightarrow> R s s'"
      and refl: "\<And>s. R s s"
      and trans: "\<And>a b c. R a b \<Longrightarrow> R b c \<Longrightarrow> R a c"
  shows "for_each body xs s = (e, xs', s') \<Longrightarrow> R s s'"
proof (induction xs arbitrary: s e xs' s')
  case Nil
  then show ?case by (simp add: refl)
next
  case (Cons x xs)
  obtain e1 x1 s1 where b: "body x s = (e1, x1, s1)"
    by (cases "body x s") auto
  show ?case
  proof (cases e1)
    case None
    obtain e2 xs2 s2 where r: "for_each body xs s1 = (e2, xs2, s2)"
      by (cases "for_each body xs s1") auto
    with Cons.prems b None have "s' = s2" by simp
    with Cons.IH [OF r] step [OF b] show ?thesis by (blast intro: trans)
  next
    case (Some a)
    with Cons.prems b have "s' = s1" by simp
    with step [OF b] show ?thesis by simp
  qed
qed

text \<open>The same for a relation between each element and what the body leaves of it.\<close>

lemma for_each_frame:
  assumes step: "\<And>x s e x' s'. body x s = (e, x', s') \<Longrightarrow> F x x'"
      and refl: "\<And>x. F x x"
  shows "for_each body xs s = (e, xs', s') \<Longrightarrow> list_all2 F xs xs'"
proof (induction xs arbitrary: s e xs' s')
  case Nil
  then show ?case by simp
next
  case (Cons x xs)
  obtain e1 x1 s1 where b: "body x s = (e1, x1, s1)"
    by (cases "body x s") auto
  show ?case
  proof (cases e1)
    case None
    obtain e2 xs2 s2 where r: "for_each body xs s1 = (e2, xs2, s2)"
      by (cases "for_each body xs s1") auto
    with Cons.prems b None have "xs' = x1 # xs2" by simp
    with Cons.IH [OF r] step [OF b] show ?thesis by simp
  next
    case (Some a)
    with Cons.prems b have "xs' = x1 # xs" by simp
    with step [OF b] show ?thesis by (simp add: list_all2_refl refl)
  qed
qed

lemma pass_step_refl: "pass_step s s"
  by (simp add: pass_step_def)

lemma pass_step_trans: "pass_step a b \<Longrightarrow> pass_step b c \<Longrightarrow> pass_step a c"
  unfolding pass_step_def
  apply (elim exE conjE)
  subgoal for evs evs'
    by (rule exI [of _ "evs @ evs'"]) auto
  done

lemma generate_jwt_token_step:
  assumes "generate_jwt_token L ip kp w = (t, w')"
  shows "\<exists>evs. trace w' = trace w @ evs \<and> files w' = files w \<and>
           write_outcome w' = write_outcome w \<and>
           \<not> list_ex is_open_write evs \<and> \<not> list_ex is_token_assigned evs"
  using assms
  by (auto simp: generate_jwt_token_def read_file_def time_time_def Let_def
      split: if_splits option.splits fnode.splits read_result.splits prod.splits)

lemma process_connector_step:
  assumes "process_connector L base_dir x s = (e, x', s')"
  shows "pass_step s s'"
proof (cases x)
  case (JObj c)
  obtain ch w where s: "s = (ch, w)" by (cases s)
  obtain t w1 where g: "generate_jwt_token L
      (path_join L base_dir (py_str L (dict_get c ''username'' JNull) @ ''.txt''))
      (path_join L base_dir (py_str L (dict_get c ''username'' JNull) @ ''.pem'')) w = (t, w1)"
    by (cases "generate_jwt_token L
      (path_join L base_dir (py_str L (dict_get c ''username'' JNull) @ ''.txt''))
      (path_join L base_dir (py_str L (dict_get c ''username'' JNull) @ ''.pem'')) w") auto
  from generate_jwt_token_step [OF g] obtain evs where
    evs: "trace w1 = trace w @ evs" "files w1 = files w" "write_outcome w1 = write_outcome w"
      "\<not> list_ex is_open_write evs" "\<not> list_ex is_token_assigned evs"
    by blast
  from assms show ?thesis
    unfolding JObj s
    by (auto simp: pass_step_def Let_def g evs split: if_splits)
qed (use assms in \<open>auto simp: pass_step_def\<close>)

lemma for_each_connector_step:
  "for_each (process_connector L base_dir) cs s = (e, cs', s') \<Longrightarrow> pass_step s s'"
  by (rule for_each_invariant [where R = pass_step and body = "process_connector L base_dir"])
     (auto intro: process_connector_step pass_step_refl pass_step_trans)

lemma process_link_step:
  assumes "process_link L base_dir x s = (e, x', s')"
  shows "pass_step s s'"
  using assms
  by (cases x) (auto simp: pass_step_refl split: option.splits json.splits if_splits prod.splits
      dest: for_each_connector_step)

lemma for_each_link_step:
  "for_each (process_link L base_dir) ls s = (e, ls', s') \<Longrightarrow> pass_step s s'"
  by (rule for_each_invariant [where R = pass_step and body = "process_link L base_dir"])
     (auto intro: process_link_step pass_step_refl pass_step_trans)

lemma refresh_document_step:
  assumes "refresh_document L base_dir data w = (e, data', s')"
  shows "pass_step (False, w) s'"
  using assms
  by (auto simp: refresh_document_def pass_step_refl split: option.splits json.splits prod.splits
      dest: for_each_link_step)

lemma save_document_trace:
  "\<exists>evs. trace (save_document L p d w) = trace w @ Open_write p # evs \<and>
          \<not> list_ex is_token_assigned evs \<and> \<not> list_ex is_open_write evs"
  by (simp add: save_document_def Let_def split: write_outcome.splits)

lemma save_document_files:
  "files (save_document L p d w) =
     (case write_outcome w p of
        Write_ok \<Rightarrow> (files w)(Name p \<mapsto> Regular (json_dumps L d))
      | Open_fails \<Rightarrow> files w
      | Write_fails n \<Rightarrow> (files w)(Name p \<mapsto> Regular (take n (json_dumps L d))))"
  by (simp add: save_document_def Let_def split: write_outcome.splits)

lemma update_connector_tokens_trace:
  assumes "update_connector_tokens L file_path w = (r, w')"
  shows "\<exists>evs. trace w' = trace w @ evs"
proof -
  have rd: "\<exists>evs. trace w2 = trace w1 @ evs"
    if "refresh_document L b data w1 = (e, data', (ch, w2))" for b data w1 e data' ch w2
    using refresh_document_step [OF that] by (auto simp: pass_step_def)
  from assms show ?thesis
    by (auto simp: update_connector_tokens_def read_file_def save_document_def Let_def
        split: sum.splits if_splits fnode.splits option.splits json.splits prod.splits
          write_outcome.splits
        dest!: rd)
qed

subsection \<open>What a pass changes in the document\<close>

lemma connector_frame_refl: "connector_frame x x"
  by (cases x) auto

lemma link_frame_refl: "link_frame x x"
  by (cases x) auto

lemma process_connector_frame:
  assumes "process_connector L base_dir x s = (e, x', s')"
  shows "connector_frame x x'"
proof (cases x)
  case (JObj c)
  obtain ch w where s: "s = (ch, w)" by (cases s)
  from assms show ?thesis
    unfolding JObj s
    by (auto simp: Let_def dict_get_def update_conv' split: if_splits prod.splits option.splits)
qed (use assms in auto)

lemma for_each_connector_frame:
  "for_each (process_connector L base_dir) cs s = (e, cs', s') \<Longrightarrow> list_all2 connector_frame cs cs'"
  by (rule for_each_frame [where body = "process_connector L base_dir"])
     (auto intro: process_connector_frame connector_frame_refl)

lemma process_link_frame:
  assumes "process_link L base_dir x s = (e, x', s')"
  shows "link_frame x x'"
  using assms
  by (cases x)
     (auto simp: update_conv' split: option.splits json.splits if_splits prod.splits
      dest: for_each_connector_frame)

lemma for_each_link_frame:
  "for_each (process_link L base_dir) ls s = (e, ls', s') \<Longrightarrow> list_all2 link_frame ls ls'"
  by (rule for_each_frame [where body = "process_link L base_dir"])
     (auto intro: process_link_frame link_frame_refl)

lemma refresh_document_frame:
  assumes "refresh_document L base_dir data w = (e, data', s')"
  shows "document_frame data data'"
  using assms
  by (cases data)
     (auto simp: refresh_document_def update_conv' split: option.splits json.splits prod.splits
      dest: for_each_link_frame)

section \<open>The token generator\<close>

text \<open>
  C7. When no file stands at the key path, the token generator returns \<open>None\<close> (it
  returns: no exception leaves it), and all it does is write the error record that names
  the missing path. It opens no file, so the issuer file is not read, and it does not call
  the signer.
\<close>

theorem generate_jwt_token_missing_key:
  assumes "files w (Name private_key_path) = None"
  shows "generate_jwt_token L issuer_path private_key_path w =
           (None, w\<lparr>trace := trace w @ [Log ERROR (Private_key_not_found private_key_path)]\<rparr>)"
  using assms by (simp add: generate_jwt_token_def log_def emit_def)

theorem generate_jwt_token_missing_key_witness:
  "files (example_world ''<config>'') (Name ''/etc/zb/bob.pem'') = None \<and>
   generate_jwt_token example_lib ''/etc/zb/bob.txt'' ''/etc/zb/bob.pem'' (example_world ''<config>'') =
     (None, (example_world ''<config>'')
              \<lparr>trace := [Log ERROR (Private_key_not_found ''/etc/zb/bob.pem'')]\<rparr>)"
  using generate_jwt_token_missing_key
    [of "example_world ''<config>''" "''/etc/zb/bob.pem''" example_lib "''/etc/zb/bob.txt''"]
  by (simp add: example_world_def)

text \<open>
  C5, as the code has it. A token that the generator returns is what the signer made, with
  the algorithm RS256, of the header with \<open>typ\<close> JWT and \<open>alg\<close> RS256 and of a
  payload with exactly two claims: \<open>iss\<close>, the stripped text of the issuer file, and
  \<open>exp\<close>, the integer nearest to the float sum of the clock reading and 120 (a tie
  going to the even integer). The float sum is the exact sum rounded to a double, so
  \<open>exp\<close> is at most one second away from the clock reading plus 120 (for every reading
  below \<open>2 ^ 53\<close>), and it is not always the integer nearest to it. The key is the one
  loaded from the text of the key file.
\<close>

theorem generate_jwt_token_payload:
  assumes "generate_jwt_token L issuer_path private_key_path w = (Some token, w')"
  shows "\<exists>key_text private_key issuer_text.
           files w (Name private_key_path) = Some (Regular key_text) \<and>
           load_pem_private_key L key_text = Some private_key \<and>
           files w (Name issuer_path) = Some (Regular issuer_text) \<and>
           jwt_encode L
             [(''iss'', JStr (strip issuer_text)),
              (''exp'', JInt (py_round (round_to_double (time_at w (ticks w) + 120))))]
             private_key ''RS256''
             [(''typ'', JStr ''JWT''), (''alg'', JStr ''RS256'')] = Some token \<and>
           \<bar>of_int (py_round (round_to_double (time_at w (ticks w) + 120))) -
              round_to_double (time_at w (ticks w) + 120)\<bar> \<le> 1 / 2 \<and>
           (2 ^ 53 \<le> \<bar>time_at w (ticks w) + 120\<bar> \<or>
            \<bar>of_int (py_round (round_to_double (time_at w (ticks w) + 120))) -
               (time_at w (ticks w) + 120)\<bar> \<le> 1)"
proof -
  let ?x = "time_at w (ticks w) + 120"
  have near: "2 ^ 53 \<le> \<bar>?x\<bar> \<or> \<bar>of_int (py_round (round_to_double ?x)) - ?x\<bar> \<le> 1"
  proof (cases "\<bar>?x\<bar> < 2 ^ 53")
    case True
    from round_to_double_near [OF True] py_round_nearest [of "round_to_double ?x"]
    show ?thesis by linarith
  next
    case False
    then show ?thesis by simp
  qed
  from assms near py_round_nearest [of "round_to_double ?x"] show ?thesis
    by (auto simp: generate_jwt_token_def read_file_def time_time_def Let_def
        split: if_splits option.splits fnode.splits read_result.splits prod.splits)
qed

theorem generate_jwt_token_payload_witness:
  "generate_jwt_token example_lib ''/etc/zb/alice.txt'' ''/etc/zb/alice.pem'' (example_world ''<config>'') =
     (Some ''jwt:alice-issuer'',
      (example_world ''<config>'')
        \<lparr>ticks := 1,
         trace := [Open_read (Name ''/etc/zb/alice.pem''), Open_read (Name ''/etc/zb/alice.txt''),
                   Jwt_encode [(''iss'', JStr ''alice-issuer''), (''exp'', JInt 1700000120)]
                              [(''typ'', JStr ''JWT''), (''alg'', JStr ''RS256'')],
                   Log INFO Token_generated]\<rparr>) \<and>
   (\<exists>private_key.
      load_pem_private_key example_lib ''<alice key>'' = Some private_key \<and>
      jwt_encode example_lib
        [(''iss'', JStr ''alice-issuer''), (''exp'', JInt 1700000120)]
        private_key ''RS256''
        [(''typ'', JStr ''JWT''), (''alg'', JStr ''RS256'')] = Some ''jwt:alice-issuer'')"
proof -
  note run = alice_token
  from generate_jwt_token_payload [OF run]
  obtain key_text private_key issuer_text where
    k: "files (example_world ''<config>'') (Name ''/etc/zb/alice.pem'') = Some (Regular key_text)" and
    l: "load_pem_private_key example_lib key_text = Some private_key" and
    i: "files (example_world ''<config>'') (Name ''/etc/zb/alice.txt'') = Some (Regular issuer_text)" and
    e: "jwt_encode example_lib
          [(''iss'', JStr (strip issuer_text)),
           (''exp'', JInt (py_round (round_to_double
              (time_at (example_world ''<config>'') (ticks (example_world ''<config>'')) + 120))))]
          private_key ''RS256''
          [(''typ'', JStr ''JWT''), (''alg'', JStr ''RS256'')] = Some ''jwt:alice-issuer''"
    by blast
  from k have kt: "key_text = ''<alice key>''" by (simp add: example_world_def)
  from i have it: "issuer_text = '' alice-issuer'' @ [CHR 0x0A]" by (simp add: example_world_def)
  have s: "strip ('' alice-issuer'' @ [CHR 0x0A]) = ''alice-issuer''"
    by (simp add: strip_def is_space_def)
  have r: "py_round (round_to_double
      (time_at (example_world ''<config>'') (ticks (example_world ''<config>'')) + 120)) = 1700000120"
    by (simp add: example_world_def example_exp)
  from l e show ?thesis
    unfolding kt it s r using run by blast
qed

text \<open>
  The claim C5 fails where the float sum is not the exact sum. At the clock reading
  \<open>9007198757715967 / 4194304\<close> (the double written \<open>2147483529.4999998\<close>) the reading
  plus 120 is below \<open>2147483649.5\<close> and its nearest integer is \<open>2147483649\<close>; the
  float sum is \<open>2147483649.5\<close> and the \<open>exp\<close> handed to the signer is
  \<open>2147483650\<close>.
\<close>

theorem exp_is_not_the_nearest_integer:
  "py_round (9007198757715967 / 4194304 + 120) = 2147483649 \<and>
   fst (generate_jwt_token example_lib ''/etc/zb/alice.txt'' ''/etc/zb/alice.pem''
          ((example_world ''<config>'')\<lparr>time_at := (\<lambda>n. 9007198757715967 / 4194304)\<rparr>)) =
     Some ''jwt:alice-issuer'' \<and>
   trace (snd (generate_jwt_token example_lib ''/etc/zb/alice.txt'' ''/etc/zb/alice.pem''
          ((example_world ''<config>'')\<lparr>time_at := (\<lambda>n. 9007198757715967 / 4194304)\<rparr>))) =
     [Open_read (Name ''/etc/zb/alice.pem''), Open_read (Name ''/etc/zb/alice.txt''),
      Jwt_encode [(''iss'', JStr ''alice-issuer''), (''exp'', JInt 2147483650)]
                 [(''typ'', JStr ''JWT''), (''alg'', JStr ''RS256'')],
      Log INFO Token_generated]"
proof -
  have a: "py_round (9007198757715967 / 4194304 + 120) = 2147483649"
    by code_simp
  have b: "py_round (round_to_double (9007198757715967 / 4194304 + 120)) = 2147483650"
    by code_simp
  have c: "generate_jwt_token example_lib ''/etc/zb/alice.txt'' ''/etc/zb/alice.pem''
          ((example_world ''<config>'')\<lparr>time_at := (\<lambda>n. 9007198757715967 / 4194304)\<rparr>) =
     (Some ''jwt:alice-issuer'',
      (example_world ''<config>'')
        \<lparr>time_at := (\<lambda>n. 9007198757715967 / 4194304), ticks := 1,
         trace := [Open_read (Name ''/etc/zb/alice.pem''), Open_read (Name ''/etc/zb/alice.txt''),
                   Jwt_encode [(''iss'', JStr ''alice-issuer''),
                               (''exp'', JInt (py_round (round_to_double (9007198757715967 / 4194304 + 120))))]
                              [(''typ'', JStr ''JWT''), (''alg'', JStr ''RS256'')],
                   Log INFO Token_generated]\<rparr>)"
    by (simp add: generate_jwt_token_def example_world_def example_lib_def read_file_def
        time_time_def strip_def is_space_def Let_def emit_def log_def del: add_divide_eq_if_simps)
  show ?thesis
    unfolding c using a b by simp
qed

section \<open>The configuration pass\<close>

text \<open>
  C9. When the configuration file decodes to a document that is not a dict, or has no
  \<open>links\<close>, or whose \<open>links\<close> is not a list, the pass returns (no exception
  leaves it) after two effects: it has opened the file for reading and written the error
  record. The file system is the one it found: no file has changed.
\<close>

theorem update_connector_tokens_without_links:
  assumes "path_arg file_path = Inr p"
      and "files w p = Some (Regular content)"
      and "json_loads L content = Some data"
      and "\<nexists>d ls. data = JObj d \<and> map_of d ''links'' = Some (JList ls)"
  shows "update_connector_tokens L file_path w =
           (None, w\<lparr>trace := trace w @ [Open_read p, Log ERROR Unexpected_structure]\<rparr>) \<and>
         files (snd (update_connector_tokens L file_path w)) = files w"
proof -
  from assms(4) have "\<not> has_links_list data"
    by (simp add: has_links_list_iff)
  with assms(1-3) show ?thesis
    by (simp add: update_connector_tokens_def read_file_def log_def emit_def)
qed

theorem update_connector_tokens_without_links_witness:
  "files (example_world ''[]'') (Name ''/etc/zb/config.json'') = Some (Regular ''[]'') \<and>
   json_loads example_lib ''[]'' = Some (JList []) \<and>
   update_connector_tokens example_lib (JStr ''/etc/zb/config.json'') (example_world ''[]'') =
     (None, (example_world ''[]'')
              \<lparr>trace := [Open_read (Name ''/etc/zb/config.json''), Log ERROR Unexpected_structure]\<rparr>) \<and>
   files (snd (update_connector_tokens example_lib (JStr ''/etc/zb/config.json'') (example_world ''[]''))) =
     files (example_world ''[]'')"
  using update_connector_tokens_without_links
    [of "JStr ''/etc/zb/config.json''" "Name ''/etc/zb/config.json''" "example_world ''[]''" "''[]''"
        example_lib "JList []"]
  by (simp add: example_world_def example_lib_def)

text \<open>
  C10. A connector of the type whose \<open>username\<close> is the empty string is treated as
  one that has no \<open>username\<close>: in both cases the loop writes the warning, does nothing
  else (no file is looked for or opened), leaves the connector and \<open>changes_made\<close>
  as they are, and goes on with the connectors that follow.
\<close>

theorem empty_username_is_skipped:
  assumes "map_of c ''type'' = Some (JStr zello)"
      and "map_of c ''username'' = Some (JStr []) \<or> map_of c ''username'' = None"
  shows "for_each (process_connector L base_dir) (JObj c # cs) (changes_made, w) =
           (case for_each (process_connector L base_dir) cs
                   (changes_made, w\<lparr>trace := trace w @ [Log WARNING No_username]\<rparr>) of
              (r, cs', s') \<Rightarrow> (r, JObj c # cs', s'))"
  using assms by (auto simp: dict_get_def log_def emit_def)

theorem empty_username_is_skipped_witness:
  "for_each (process_connector example_lib ''/etc/zb'')
     [JObj [(''type'', JStr zello), (''username'', JStr []), (''token'', JStr ''t'')], radio]
     (False, example_world ''<config>'') =
   (None,
    [JObj [(''type'', JStr zello), (''username'', JStr []), (''token'', JStr ''t'')], radio],
    (False, (example_world ''<config>'')\<lparr>trace := [Log WARNING No_username]\<rparr>))"
  using empty_username_is_skipped
    [of "[(''type'', JStr zello), (''username'', JStr []), (''token'', JStr ''t'')]"
        example_lib "''/etc/zb''" "[radio]" False "example_world ''<config>''"]
  by (simp add: radio_def zello_def dict_get_def example_world_def)

lemma example_pass_plain:
  "update_connector_tokens example_lib (JStr ''/etc/zb/config.json'') (example_world ''<config>'') =
     (None,
      (example_world ''<refreshed config>'')
        \<lparr>ticks := 1,
         trace :=
           [Open_read (Name ''/etc/zb/config.json''),
            Log ERROR (Private_key_not_found ''/etc/zb/bob.pem''),
            Log ERROR (Token_not_generated (JStr ''B'')),
            Open_read (Name ''/etc/zb/alice.pem''),
            Open_read (Name ''/etc/zb/alice.txt''),
            Jwt_encode [(''iss'', JStr ''alice-issuer''), (''exp'', JInt 1700000120)]
                       [(''typ'', JStr ''JWT''), (''alg'', JStr ''RS256'')],
            Log INFO Token_generated,
            Log INFO (Token_assigned (JStr ''A'')),
            Open_write ''/etc/zb/config.json'',
            Log INFO (File_saved ''/etc/zb/config.json'')]\<rparr>)"
  using example_pass [of "[]"] by (simp add: example_world_def)

lemma example_dirname: "path_dirname example_lib ''/etc/zb/config.json'' = ''/etc/zb''"
  by (simp add: example_lib_def)

lemma example_join: "path_join example_lib a b = a @ ''/'' @ b"
  by (simp add: example_lib_def)

lemma filter_none: "\<not> list_ex P xs \<Longrightarrow> filter P xs = []"
  by (simp add: list_ex_iff filter_empty_conv)

text \<open>
  A step of the inner loop on a dict raises nothing. It writes the record of line 136
  exactly when the generator gives a token for the connector, and then, and only then, it
  stores that token in the connector and sets \<open>changes_made\<close>.
\<close>

lemma process_connector_token:
  assumes "process_connector L base_dir (JObj c) (changes_made, w0) = (e, x', (changes_made', w1))"
  shows "e = None \<and>
         (list_ex is_token_assigned (emitted w0 w1) \<longleftrightarrow> generated_token L base_dir c w0 \<noteq> None) \<and>
         (changes_made' \<longleftrightarrow> changes_made \<or> generated_token L base_dir c w0 \<noteq> None) \<and>
         x' = (case generated_token L base_dir c w0 of
                 Some token \<Rightarrow> JObj (AList.update ''token'' (JStr token) c)
               | None \<Rightarrow> JObj c)"
proof -
  obtain t wg where g: "generate_jwt_token L
      (path_join L base_dir (py_str L (dict_get c ''username'' JNull) @ ''.txt''))
      (path_join L base_dir (py_str L (dict_get c ''username'' JNull) @ ''.pem'')) w0 = (t, wg)"
    by (cases "generate_jwt_token L
      (path_join L base_dir (py_str L (dict_get c ''username'' JNull) @ ''.txt''))
      (path_join L base_dir (py_str L (dict_get c ''username'' JNull) @ ''.pem'')) w0") auto
  from generate_jwt_token_step [OF g] obtain evs where
    evs: "trace wg = trace w0 @ evs" "\<not> list_ex is_token_assigned evs"
    by blast
  from assms show ?thesis
    by (auto simp: generated_token_def zello_def [symmetric] Let_def g evs emitted_def
        token_truthy_def split: if_splits option.splits)
qed

text \<open>
  C4, as the code has it. A pass that returns (no exception leaves it) and has assigned a
  token to some connector opens the configuration file for writing, once, opens no other
  file for writing, and writes the encoding of the document as the loops left it: the file
  then holds it, or a first part of it where the write breaks off, or is as it was where
  it cannot be opened. Every other pass opens no file for writing and leaves every file as
  it was. A token is assigned, and \<open>changes_made\<close> set, exactly when the generator
  gives one: the token is not compared with the one stored.
\<close>

theorem write_iff_token_assigned:
  assumes "update_connector_tokens L file_path w = (r, w')"
      and "process_connector L base_dir (JObj c) (changes_made, w0) = (e, x', (changes_made', w1))"
  shows "(if r = None \<and> list_ex is_token_assigned (emitted w w')
          then \<exists>path content data data' w2.
                 file_path = JStr path \<and>
                 files w (Name path) = Some (Regular content) \<and>
                 json_loads L content = Some data \<and>
                 refresh_document L (path_dirname L path) data (emit (Open_read (Name path)) w) =
                   (None, data', (True, w2)) \<and>
                 filter is_open_write (emitted w w') = [Open_write path] \<and>
                 files w' =
                   (case write_outcome w path of
                      Write_ok \<Rightarrow> (files w)(Name path \<mapsto> Regular (json_dumps L data'))
                    | Open_fails \<Rightarrow> files w
                    | Write_fails n \<Rightarrow> (files w)(Name path \<mapsto> Regular (take n (json_dumps L data'))))
          else \<not> list_ex is_open_write (emitted w w') \<and> files w' = files w) \<and>
         e = None \<and>
         (list_ex is_token_assigned (emitted w0 w1) \<longleftrightarrow> generated_token L base_dir c w0 \<noteq> None) \<and>
         (changes_made' \<longleftrightarrow> changes_made \<or> generated_token L base_dir c w0 \<noteq> None) \<and>
         x' = (case generated_token L base_dir c w0 of
                 Some token \<Rightarrow> JObj (AList.update ''token'' (JStr token) c)
               | None \<Rightarrow> JObj c)"
proof -
  let ?P = "if r = None \<and> list_ex is_token_assigned (emitted w w')
          then \<exists>path content data data' w2.
                 file_path = JStr path \<and>
                 files w (Name path) = Some (Regular content) \<and>
                 json_loads L content = Some data \<and>
                 refresh_document L (path_dirname L path) data (emit (Open_read (Name path)) w) =
                   (None, data', (True, w2)) \<and>
                 filter is_open_write (emitted w w') = [Open_write path] \<and>
                 files w' =
                   (case write_outcome w path of
                      Write_ok \<Rightarrow> (files w)(Name path \<mapsto> Regular (json_dumps L data'))
                    | Open_fails \<Rightarrow> files w
                    | Write_fails n \<Rightarrow> (files w)(Name path \<mapsto> Regular (take n (json_dumps L data'))))
          else \<not> list_ex is_open_write (emitted w w') \<and> files w' = files w"
  have quiet: ?P
    if "trace w' = trace w @ evs" "\<not> list_ex is_open_write evs" "files w' = files w"
       "r \<noteq> None \<or> \<not> list_ex is_token_assigned evs" for evs
    using that by (auto simp: emitted_append)
  have pass: ?P
  proof (cases "path_arg file_path")
    case (Inl x)
    with assms(1) have "trace w' = trace w @ []" "files w' = files w" "r \<noteq> None"
      by (auto simp: update_connector_tokens_def)
    then show ?thesis by (intro quiet) auto
  next
    case (Inr p)
    show ?thesis
    proof (cases "files w p")
      case None
      with assms(1) Inr have "trace w' = trace w @ [Log ERROR (Config_not_found file_path)]"
          "files w' = files w"
        by (auto simp: update_connector_tokens_def)
      then show ?thesis by (intro quiet) auto
    next
      case (Some node)
      note node = Some
      show ?thesis
      proof (cases "\<exists>content data path. node = Regular content \<and> json_loads L content = Some data \<and>
                      has_links_list data \<and> file_path = JStr path")
        case False
        with assms(1) Inr node have "\<exists>evs. trace w' = trace w @ evs \<and> \<not> list_ex is_open_write evs \<and>
            \<not> list_ex is_token_assigned evs \<and> files w' = files w"
          by (auto simp: update_connector_tokens_def read_file_def
              split: fnode.splits option.splits if_splits json.splits)
        then obtain evs where "trace w' = trace w @ evs" "\<not> list_ex is_open_write evs"
            "\<not> list_ex is_token_assigned evs" "files w' = files w"
          by blast
        then show ?thesis by (intro quiet [of evs]) auto
      next
        case True
        then obtain content data path where
          t: "node = Regular content" "json_loads L content = Some data" "has_links_list data"
             "file_path = JStr path"
          by blast
        from Inr t(4) have p: "p = Name path" by simp
        obtain e1 data' ch w2 where
          rd: "refresh_document L (path_dirname L path) data (emit (Open_read (Name path)) w) =
                 (e1, data', (ch, w2))"
          by (cases "refresh_document L (path_dirname L path) data (emit (Open_read (Name path)) w)") auto
        from refresh_document_step [OF rd] obtain evs where
          evs: "trace w2 = trace w @ Open_read (Name path) # evs" "\<not> list_ex is_open_write evs"
               "ch \<longleftrightarrow> list_ex is_token_assigned evs"
               "files w2 = files w" "write_outcome w2 = write_outcome w"
          by (auto simp: pass_step_def)
        from save_document_trace [of L path data' w2] obtain evs' where
          sv: "trace (save_document L path data' w2) = trace w2 @ Open_write path # evs'"
              "\<not> list_ex is_token_assigned evs'" "\<not> list_ex is_open_write evs'"
          by blast
        show ?thesis
        proof (cases e1)
          case (Some x)
          with assms(1) Inr node t rd p have "w' = w2" "r = Some x"
            by (auto simp: update_connector_tokens_def read_file_def)
          with evs show ?thesis
            by (intro quiet [of "Open_read (Name path) # evs"]) auto
        next
          case None
          show ?thesis
          proof (cases ch)
            case True
            with assms(1) Inr node t rd None p have w': "w' = save_document L path data' w2" and r: "r = None"
              by (auto simp: update_connector_tokens_def read_file_def)
            from w' evs sv have em: "emitted w w' = Open_read (Name path) # evs @ Open_write path # evs'"
              by (simp add: emitted_append)
            from evs(2) sv(3) have fl: "filter is_open_write (emitted w w') = [Open_write path]"
              by (simp add: em filter_none)
            from w' evs have fs: "files w' =
                   (case write_outcome w path of
                      Write_ok \<Rightarrow> (files w)(Name path \<mapsto> Regular (json_dumps L data'))
                    | Open_fails \<Rightarrow> files w
                    | Write_fails n \<Rightarrow> (files w)(Name path \<mapsto> Regular (take n (json_dumps L data'))))"
              by (simp add: save_document_files split: write_outcome.splits)
            from node t p have "files w (Name path) = Some (Regular content)"
              by simp
            with t rd None True fl fs r em evs(3) show ?thesis
              by auto
          next
            case False
            with assms(1) Inr node t rd None p have "w' = log INFO No_tokens_generated w2" "r = None"
              by (auto simp: update_connector_tokens_def read_file_def)
            with evs False show ?thesis
              by (intro quiet [of "Open_read (Name path) # evs @ [Log INFO No_tokens_generated]"]) auto
          qed
        qed
      qed
    qed
  qed
  from pass process_connector_token [OF assms(2)] show ?thesis
    by blast
qed

theorem write_iff_token_assigned_witness:
  "fst (update_connector_tokens example_lib (JStr ''/etc/zb/config.json'') (example_world ''<config>'')) = None \<and>
   list_ex is_token_assigned
     (emitted (example_world ''<config>'')
        (snd (update_connector_tokens example_lib (JStr ''/etc/zb/config.json'') (example_world ''<config>'')))) \<and>
   filter is_open_write
     (emitted (example_world ''<config>'')
        (snd (update_connector_tokens example_lib (JStr ''/etc/zb/config.json'') (example_world ''<config>'')))) =
     [Open_write ''/etc/zb/config.json''] \<and>
   files (snd (update_connector_tokens example_lib (JStr ''/etc/zb/config.json'') (example_world ''<config>''))) =
     (files (example_world ''<config>''))
       (Name ''/etc/zb/config.json'' \<mapsto> Regular (json_dumps example_lib (example_config ''jwt:alice-issuer''))) \<and>
   generated_token example_lib ''/etc/zb''
     [(''type'', JStr zello), (''username'', JStr ''alice''), (''name'', JStr ''A''),
      (''token'', JStr ''old-a''), (''channel'', JStr ''ops'')] (example_world ''<config>'') =
     Some ''jwt:alice-issuer'' \<and>
   fst (snd (process_connector example_lib ''/etc/zb'' (alice ''old-a'') (False, example_world ''<config>''))) =
     alice ''jwt:alice-issuer'' \<and>
   fst (snd (snd (process_connector example_lib ''/etc/zb'' (alice ''old-a'') (False, example_world ''<config>''))))"
proof -
  let ?w = "example_world ''<config>''"
  let ?X = "update_connector_tokens example_lib (JStr ''/etc/zb/config.json'') ?w"
  let ?c = "[(''type'', JStr zello), (''username'', JStr ''alice''), (''name'', JStr ''A''),
      (''token'', JStr ''old-a''), (''channel'', JStr ''ops'')]"
  let ?Y = "process_connector example_lib ''/etc/zb'' (JObj ?c) (False, ?w)"
  have h1: "?X = (fst ?X, snd ?X)"
    by simp
  have h2: "?Y = (fst ?Y, fst (snd ?Y), (fst (snd (snd ?Y)), snd (snd (snd ?Y))))"
    by simp
  note T = write_iff_token_assigned [OF h1 h2]
  have g: "generated_token example_lib ''/etc/zb'' ?c ?w = Some ''jwt:alice-issuer''"
    by (simp add: generated_token_def alice_token example_join dict_get_def py_str_def zello_def)
  have em: "emitted ?w (snd ?X) =
           [Open_read (Name ''/etc/zb/config.json''),
            Log ERROR (Private_key_not_found ''/etc/zb/bob.pem''),
            Log ERROR (Token_not_generated (JStr ''B'')),
            Open_read (Name ''/etc/zb/alice.pem''),
            Open_read (Name ''/etc/zb/alice.txt''),
            Jwt_encode [(''iss'', JStr ''alice-issuer''), (''exp'', JInt 1700000120)]
                       [(''typ'', JStr ''JWT''), (''alg'', JStr ''RS256'')],
            Log INFO Token_generated,
            Log INFO (Token_assigned (JStr ''A'')),
            Open_write ''/etc/zb/config.json'',
            Log INFO (File_saved ''/etc/zb/config.json'')]"
    by (simp add: example_pass_plain emitted_def) (simp add: example_world_def)
  have r: "fst ?X = None"
    by (simp add: example_pass_plain)
  from T r em have ex: "\<exists>path content data data' w2.
                 JStr ''/etc/zb/config.json'' = JStr path \<and>
                 files ?w (Name path) = Some (Regular content) \<and>
                 json_loads example_lib content = Some data \<and>
                 refresh_document example_lib (path_dirname example_lib path) data
                   (emit (Open_read (Name path)) ?w) = (None, data', (True, w2)) \<and>
                 filter is_open_write (emitted ?w (snd ?X)) = [Open_write path] \<and>
                 files (snd ?X) =
                   (case write_outcome ?w path of
                      Write_ok \<Rightarrow> (files ?w)(Name path \<mapsto> Regular (json_dumps example_lib data'))
                    | Open_fails \<Rightarrow> files ?w
                    | Write_fails n \<Rightarrow> (files ?w)(Name path \<mapsto> Regular (take n (json_dumps example_lib data'))))"
    by simp
  then obtain content data data' w2 where
    c: "files ?w (Name ''/etc/zb/config.json'') = Some (Regular content)" and
    d: "json_loads example_lib content = Some data" and
    rd: "refresh_document example_lib (path_dirname example_lib ''/etc/zb/config.json'') data
           (emit (Open_read (Name ''/etc/zb/config.json'')) ?w) = (None, data', (True, w2))" and
    fl: "filter is_open_write (emitted ?w (snd ?X)) = [Open_write ''/etc/zb/config.json'']" and
    fs: "files (snd ?X) =
           (case write_outcome ?w ''/etc/zb/config.json'' of
              Write_ok \<Rightarrow> (files ?w)(Name ''/etc/zb/config.json'' \<mapsto> Regular (json_dumps example_lib data'))
            | Open_fails \<Rightarrow> files ?w
            | Write_fails n \<Rightarrow> (files ?w)(Name ''/etc/zb/config.json'' \<mapsto> Regular (take n (json_dumps example_lib data'))))"
    by auto
  from c have "content = ''<config>''" by (simp add: example_world_def)
  with d have "data = example_config ''old-a''" by (simp add: example_lib_def)
  with rd have d': "data' = example_config ''jwt:alice-issuer''"
    by (simp add: example_dirname example_refresh)
  have wo: "write_outcome ?w ''/etc/zb/config.json'' = Write_ok"
    by (simp add: example_world_def)
  from fs have files: "files (snd ?X) =
     (files ?w)(Name ''/etc/zb/config.json'' \<mapsto> Regular (json_dumps example_lib (example_config ''jwt:alice-issuer'')))"
    by (simp add: d' wo)
  from T g have x: "fst (snd ?Y) = JObj (AList.update ''token'' (JStr ''jwt:alice-issuer'') ?c)"
    and ch: "fst (snd (snd ?Y))"
    by simp_all
  from x have x': "fst (snd ?Y) = alice ''jwt:alice-issuer''"
    by (simp add: alice_def)
  have asg: "list_ex is_token_assigned (emitted ?w (snd ?X))"
    by (simp add: em)
  from r asg fl files g x' ch show ?thesis
    by (simp add: alice_def)
qed

text \<open>
  The claim C4 fails where the token generated is the token stored. The file holds
  \<open>jwt:alice-issuer\<close> for alice already, the signer returns the same text, bob gets no
  token: the document after the loops is the document read, no token value has changed,
  and the pass opens the file for writing and saves it all the same.
\<close>

theorem unchanged_token_is_rewritten:
  "json_loads example_lib ''<refreshed config>'' = Some (example_config ''jwt:alice-issuer'') \<and>
   fst (snd (refresh_document example_lib ''/etc/zb'' (example_config ''jwt:alice-issuer'')
      (emit (Open_read (Name ''/etc/zb/config.json'')) (example_world ''<refreshed config>'')))) =
     example_config ''jwt:alice-issuer'' \<and>
   update_connector_tokens example_lib (JStr ''/etc/zb/config.json'') (example_world ''<refreshed config>'') =
     (None,
      (example_world ''<refreshed config>'')
        \<lparr>ticks := 1,
         trace :=
           [Open_read (Name ''/etc/zb/config.json''),
            Log ERROR (Private_key_not_found ''/etc/zb/bob.pem''),
            Log ERROR (Token_not_generated (JStr ''B'')),
            Open_read (Name ''/etc/zb/alice.pem''),
            Open_read (Name ''/etc/zb/alice.txt''),
            Jwt_encode [(''iss'', JStr ''alice-issuer''), (''exp'', JInt 1700000120)]
                       [(''typ'', JStr ''JWT''), (''alg'', JStr ''RS256'')],
            Log INFO Token_generated,
            Log INFO (Token_assigned (JStr ''A'')),
            Open_write ''/etc/zb/config.json'',
            Log INFO (File_saved ''/etc/zb/config.json'')]\<rparr>)"
  by (simp add: example_pass_again example_refresh) (simp add: example_lib_def)

text \<open>
  A step of the inner loop whose token generation fails (the generator returns \<open>None\<close>,
  or an empty token) leaves the connector and \<open>changes_made\<close> as they are, writes the
  failure record, and the loop goes on with the connectors that follow.
\<close>

lemma generation_failure_is_local:
  assumes "dict_get c ''type'' JNull = JStr zello"
      and "py_truthy (dict_get c ''username'' JNull)"
      and "generate_jwt_token L
             (path_join L base_dir (py_str L (dict_get c ''username'' JNull) @ ''.txt''))
             (path_join L base_dir (py_str L (dict_get c ''username'' JNull) @ ''.pem'')) w =
           (new_token, w1)"
      and "\<not> token_truthy new_token"
  shows "for_each (process_connector L base_dir) (JObj c # cs) (changes_made, w) =
           (case for_each (process_connector L base_dir) cs
                   (changes_made, log ERROR (Token_not_generated (dict_get c ''name'' (JStr ''N/A''))) w1) of
              (r, cs', s') \<Rightarrow> (r, JObj c # cs', s'))"
  using assms by (simp add: Let_def)

text \<open>
  C6 fails on the code. The configuration lists connector B (bob, whose key file is
  missing), connector A (alice, whose files are in place) and then a string. The failure
  for B is recorded and the loop goes on; A gets its token; at the string
  \<open>connector.get\<close> raises an \<open>AttributeError\<close> that nothing in the function handles.
  The exception leaves the pass before line 145: no file is opened for writing, the
  file system is the one the pass found, and the token assigned to A is lost.
\<close>

theorem string_connector_loses_the_update:
  "json_loads example_lib ''<config with a string connector>'' = Some config_with_string_connector \<and>
   update_connector_tokens example_lib (JStr ''/etc/zb/config.json'')
     (example_world ''<config with a string connector>'') =
     (Some AttributeError,
      (example_world ''<config with a string connector>'')
        \<lparr>ticks := 1,
         trace :=
           [Open_read (Name ''/etc/zb/config.json''),
            Log ERROR (Private_key_not_found ''/etc/zb/bob.pem''),
            Log ERROR (Token_not_generated (JStr ''B'')),
            Open_read (Name ''/etc/zb/alice.pem''),
            Open_read (Name ''/etc/zb/alice.txt''),
            Jwt_encode [(''iss'', JStr ''alice-issuer''), (''exp'', JInt 1700000120)]
                       [(''typ'', JStr ''JWT''), (''alg'', JStr ''RS256'')],
            Log INFO Token_generated,
            Log INFO (Token_assigned (JStr ''A''))]\<rparr>)"
  by (simp add: example_defs config_with_string_connector_def)

text \<open>
  C8, as the code has it. The document that a pass encodes is the one it read but for the
  \<open>token\<close> of connectors of type \<open>zello-channel-api\<close>: every other key and value,
  at every level, stands where it stood. A pass either leaves the file system as it is, or
  writes that encoding to the configuration file: the file then holds all of it, or, where
  the write breaks off after the file was opened, only a first part of it. A connector of
  any other type is passed over with no effect at all, whatever its fields are: the loop
  returns it as it is and leaves the state as it is.
\<close>

theorem only_tokens_are_modified:
  assumes "files w (Name path) = Some (Regular content)"
      and "json_loads L content = Some data"
      and "update_connector_tokens L (JStr path) w = (r, w')"
      and "dict_get c ''type'' JNull \<noteq> JStr zello"
  shows "(files w' = files w \<or>
          (\<exists>data'. document_frame data data' \<and>
             files w' =
               (case write_outcome w path of
                  Write_ok \<Rightarrow> (files w)(Name path \<mapsto> Regular (json_dumps L data'))
                | Open_fails \<Rightarrow> files w
                | Write_fails n \<Rightarrow> (files w)(Name path \<mapsto> Regular (take n (json_dumps L data')))))) \<and>
         process_connector L (path_dirname L path) (JObj c) s = (None, JObj c, s)"
proof -
  obtain e data' ch w2 where
    rd: "refresh_document L (path_dirname L path) data (emit (Open_read (Name path)) w) = (e, data', (ch, w2))"
    by (cases "refresh_document L (path_dirname L path) data (emit (Open_read (Name path)) w)") auto
  from refresh_document_step [OF rd] have f2: "files w2 = files w" "write_outcome w2 = write_outcome w"
    by (auto simp: pass_step_def)
  note fr = refresh_document_frame [OF rd]
  from assms(1-3) rd have "w' = w2 \<or> w' = save_document L path data' w2 \<or> files w' = files w"
    by (auto simp: update_connector_tokens_def read_file_def f2 split: if_splits option.splits)
  moreover have "files (save_document L path data' w2) =
               (case write_outcome w path of
                  Write_ok \<Rightarrow> (files w)(Name path \<mapsto> Regular (json_dumps L data'))
                | Open_fails \<Rightarrow> files w
                | Write_fails n \<Rightarrow> (files w)(Name path \<mapsto> Regular (take n (json_dumps L data'))))"
    by (simp add: save_document_files f2 split: write_outcome.splits)
  ultimately have "files w' = files w \<or>
          (\<exists>data'. document_frame data data' \<and>
             files w' =
               (case write_outcome w path of
                  Write_ok \<Rightarrow> (files w)(Name path \<mapsto> Regular (json_dumps L data'))
                | Open_fails \<Rightarrow> files w
                | Write_fails n \<Rightarrow> (files w)(Name path \<mapsto> Regular (take n (json_dumps L data')))))"
    using f2 fr by auto
  moreover have "process_connector L (path_dirname L path) (JObj c) s = (None, JObj c, s)"
    using assms(4) by (cases s) simp
  ultimately show ?thesis by blast
qed

theorem only_tokens_are_modified_witness:
  "document_frame (example_config ''old-a'') (example_config ''jwt:alice-issuer'') \<and>
   files (snd (update_connector_tokens example_lib (JStr ''/etc/zb/config.json'') (example_world ''<config>''))) =
     (files (example_world ''<config>''))
       (Name ''/etc/zb/config.json'' \<mapsto> Regular (json_dumps example_lib (example_config ''jwt:alice-issuer''))) \<and>
   (files (snd (update_connector_tokens example_lib (JStr ''/etc/zb/config.json'') (example_world ''<config>''))) =
      files (example_world ''<config>'') \<or>
    (\<exists>data'. document_frame (example_config ''old-a'') data' \<and>
       files (snd (update_connector_tokens example_lib (JStr ''/etc/zb/config.json'') (example_world ''<config>''))) =
         (files (example_world ''<config>''))
           (Name ''/etc/zb/config.json'' \<mapsto> Regular (json_dumps example_lib data')))) \<and>
   process_connector example_lib ''/etc/zb'' radio (False, example_world ''<config>'') =
     (None, radio, (False, example_world ''<config>''))"
proof -
  let ?w = "example_world ''<config>''"
  let ?X = "update_connector_tokens example_lib (JStr ''/etc/zb/config.json'') ?w"
  have h1: "files ?w (Name ''/etc/zb/config.json'') = Some (Regular ''<config>'')"
    by (simp add: example_world_def)
  have h2: "json_loads example_lib ''<config>'' = Some (example_config ''old-a'')"
    by (simp add: example_lib_def)
  have h3: "?X = (fst ?X, snd ?X)"
    by simp
  have h4: "dict_get [(''type'', JStr ''radio''), (''token'', JStr ''r'')] ''type'' JNull \<noteq> JStr zello"
    by (simp add: dict_get_def zello_def)
  note T = only_tokens_are_modified [OF h1 h2 h3 h4, of "(False, ?w)"]
  have wo: "write_outcome ?w ''/etc/zb/config.json'' = Write_ok"
    by (simp add: example_world_def)
  have a: "document_frame (example_config ''old-a'') (example_config ''jwt:alice-issuer'')"
    by (simp add: example_config_def alice_def bob_def radio_def zello_def)
  have b: "files (snd ?X) =
     (files ?w)(Name ''/etc/zb/config.json'' \<mapsto> Regular (json_dumps example_lib (example_config ''jwt:alice-issuer'')))"
    by (simp add: example_pass_plain) (simp add: example_world_def example_lib_def)
  from T have c: "files (snd ?X) = files ?w \<or>
    (\<exists>data'. document_frame (example_config ''old-a'') data' \<and>
       files (snd ?X) = (files ?w)(Name ''/etc/zb/config.json'' \<mapsto> Regular (json_dumps example_lib data')))"
    by (simp add: wo)
  from T have d: "process_connector example_lib ''/etc/zb'' radio (False, ?w) = (None, radio, (False, ?w))"
    by (simp add: example_dirname radio_def)
  from a b c d show ?thesis by blast
qed

text \<open>
  The claim C8 fails where the write breaks off. The file is opened, and so emptied, and
  the write fails before its first character: the two error records are written, and the
  configuration file is empty. Nothing of the document has passed to the written output,
  and the file no longer decodes.
\<close>

theorem broken_write_truncates_the_file:
  "json_loads example_lib ''<config>'' = Some (example_config ''old-a'') \<and>
   fst (update_connector_tokens example_lib (JStr ''/etc/zb/config.json'')
          ((example_world ''<config>'')\<lparr>write_outcome := (\<lambda>p. Write_fails 0)\<rparr>)) = None \<and>
   files (snd (update_connector_tokens example_lib (JStr ''/etc/zb/config.json'')
          ((example_world ''<config>'')\<lparr>write_outcome := (\<lambda>p. Write_fails 0)\<rparr>)))
     (Name ''/etc/zb/config.json'') = Some (Regular []) \<and>
   json_loads example_lib [] = None \<and>
   trace (snd (update_connector_tokens example_lib (JStr ''/etc/zb/config.json'')
          ((example_world ''<config>'')\<lparr>write_outcome := (\<lambda>p. Write_fails 0)\<rparr>))) =
     [Open_read (Name ''/etc/zb/config.json''),
      Log ERROR (Private_key_not_found ''/etc/zb/bob.pem''),
      Log ERROR (Token_not_generated (JStr ''B'')),
      Open_read (Name ''/etc/zb/alice.pem''),
      Open_read (Name ''/etc/zb/alice.txt''),
      Jwt_encode [(''iss'', JStr ''alice-issuer''), (''exp'', JInt 1700000120)]
                 [(''typ'', JStr ''JWT''), (''alg'', JStr ''RS256'')],
      Log INFO Token_generated,
      Log INFO (Token_assigned (JStr ''A'')),
      Open_write ''/etc/zb/config.json'',
      Log ERROR Write_error,
      Log ERROR Check_permissions]"
  by (simp add: example_defs)

section \<open>The watchdog loop\<close>

subsection \<open>The scan of a snapshot\<close>

lemma inspect_connector_wf:
  assumes "wf_connector x"
  shows "inspect_connector x (found, w) =
           (None, (found \<or> failing_connector x, w\<lparr>trace := trace w @ connector_log x\<rparr>))"
proof (cases x)
  case (JObj c)
  with assms show ?thesis
    by (auto simp: dict_get_type connector_code_def Let_def log_def emit_def dict_get_def
        in_3001_3002_iff zello_def
        split: option.splits json.splits)
qed (use assms in auto)

lemma for_in_inspect_connector:
  assumes "list_all wf_connector cs"
  shows "for_in inspect_connector cs (found, w) =
           (None, (found \<or> list_ex failing_connector cs,
                   w\<lparr>trace := trace w @ concat (map connector_log cs)\<rparr>))"
  using assms
proof (induction cs arbitrary: found w)
  case Nil
  then show ?case by simp
next
  case (Cons x xs)
  then show ?case by (simp add: inspect_connector_wf disj_assoc)
qed

lemma inspect_link_wf:
  assumes "wf_link x"
  shows "inspect_link x (found, w) =
           (None, (found \<or> list_ex failing_connector (connectors_of x),
                   w\<lparr>trace := trace w @ concat (map connector_log (connectors_of x))\<rparr>))"
proof (cases x)
  case (JObj l)
  with assms show ?thesis
    by (auto simp: dict_get_def for_in_inspect_connector split: option.splits json.splits)
qed (use assms in auto)

lemma for_in_inspect_link:
  assumes "list_all wf_link ls"
  shows "for_in inspect_link ls (found, w) =
           (None, (found \<or> list_ex (\<lambda>l. list_ex failing_connector (connectors_of l)) ls,
                   w\<lparr>trace := trace w @ concat (map (\<lambda>l. concat (map connector_log (connectors_of l))) ls)\<rparr>))"
  using assms
proof (induction ls arbitrary: found w)
  case Nil
  then show ?case by simp
next
  case (Cons x xs)
  then show ?case by (simp add: inspect_link_wf disj_assoc)
qed

text \<open>
  On a snapshot of the documented shape the scan raises nothing, writes one record for
  each connector of the type, and finds an error exactly when the snapshot has the failure
  signature.
\<close>

lemma scan_status_wf:
  assumes "wf_snapshot data"
  shows "scan_status data w =
           (None, config_file_of data, (has_auth_error data, w\<lparr>trace := trace w @ scan_log data\<rparr>))"
proof (cases data)
  case (JObj d)
  with assms show ?thesis
    by (auto simp: dict_get_def for_in_inspect_link has_auth_error_def scan_log_def Let_def
        split: option.splits json.splits)
qed (use assms in auto)

lemma main_iteration_200:
  assumes "json_loads L body = Some data"
      and "wf_snapshot data"
  shows "main_iteration L (Response 200 body) restart_reply w =
           (if has_auth_error data then
              (case remediate L restart_reply (config_file_of data)
                      (w\<lparr>trace := trace w @ Get_status # scan_log data\<rparr>) of
                 (Some e, w') \<Rightarrow> (Some e, w')
               | (None, w') \<Rightarrow> (None, emit (Sleep 1) w'))
            else (None, w\<lparr>trace := trace w @ Get_status # scan_log data @ [Sleep 1]\<rparr>))"
  using assms
  by (auto simp: main_iteration_def scan_status_wf emit_def split: option.splits prod.splits)

lemma remediate_trace:
  assumes "remediate L restart_reply config_path w = (r, w')"
  shows "\<exists>evs. trace w' = trace w @ evs"
proof -
  obtain r1 w1 where u: "update_connector_tokens L config_path (log INFO Connection_error_found w) = (r1, w1)"
    by (cases "update_connector_tokens L config_path (log INFO Connection_error_found w)") auto
  from update_connector_tokens_trace [OF u] obtain evs where "trace w1 = trace w @ Log INFO Connection_error_found # evs"
    by auto
  with assms u show ?thesis
    by (cases r1) (auto simp: remediate_def Let_def split: http_result.splits)
qed

subsection \<open>The example, polled\<close>

lemma example_status_facts:
  "json_loads example_lib ''<status 3001>'' = Some (example_status 3001)"
  "json_loads example_lib ''<status 4004>'' = Some (example_status 4004)"
  "wf_snapshot (example_status code)"
  "has_auth_error (example_status code) \<longleftrightarrow> code = 3001 \<or> code = 3002"
  "scan_log (example_status code) = [Log INFO (Connector_error_code (JStr ''A'') (JInt code))]"
  "config_file_of (example_status code) = JStr ''/etc/zb/config.json''"
  "trace (example_world config_text) = []"
  by (simp_all add: example_lib_def example_status_def radio_def zello_def has_auth_error_def
      scan_log_def connector_code_def dict_get_def example_world_def)

lemma status_with_null_connectors_facts:
  "json_loads example_lib ''<status with null connectors>'' = Some status_with_null_connectors"
  "has_auth_error status_with_null_connectors"
  "\<not> wf_snapshot status_with_null_connectors"
  by (simp_all add: example_lib_def status_with_null_connectors_def zello_def has_auth_error_def
      connector_code_def dict_get_def)

lemma status_without_config_file_facts:
  "json_loads example_lib ''<status without config_file>'' = Some status_without_config_file"
  "wf_snapshot status_without_config_file"
  "has_auth_error status_without_config_file"
  "scan_log status_without_config_file = [Log INFO (Connector_error_code (JStr ''A'') (JInt 3001))]"
  "config_file_of status_without_config_file = JNull"
  by (simp_all add: example_lib_def status_without_config_file_def zello_def has_auth_error_def
      scan_log_def connector_code_def dict_get_def)

section \<open>The claims on the watchdog loop\<close>

text \<open>
  On an answer 200 whose body decodes to a snapshot of the documented shape, the turn of
  the loop records the error code of every connector of the type and then remediates
  exactly when the snapshot has the failure signature: it runs the configuration pass on
  the snapshot's \<open>config_file\<close> and, once the pass has returned, sends the restart
  request and sleeps a minute. In every other case it only sleeps a second.
\<close>

lemma remediation_on_documented_shape:
  assumes "json_loads L body = Some data"
      and "wf_snapshot data"
  shows "main_iteration L (Response 200 body) restart_reply w =
           (if has_auth_error data then
              (case update_connector_tokens L (config_file_of data)
                      (w\<lparr>trace := trace w @ Get_status # scan_log data @ [Log INFO Connection_error_found]\<rparr>) of
                 (Some e, w') \<Rightarrow> (Some e, w')
               | (None, w') \<Rightarrow>
                   (None, w'\<lparr>trace := trace w' @
                      [Log INFO Restarting, Put_restart, restart_record restart_reply,
                       Log INFO Sleep_for_minute, Sleep 60, Sleep 1]\<rparr>))
            else (None, w\<lparr>trace := trace w @ Get_status # scan_log data @ [Sleep 1]\<rparr>))"
  using assms
  by (auto simp: main_iteration_200 remediate_def restart_record_def Let_def
      log_def emit_def split: option.splits prod.splits http_result.splits)

text \<open>
  C1 fails on the code. The bridge answers 200 with a snapshot whose first link has a
  connector of type \<open>zello-channel-api\<close> in error 3001 and whose second link has
  \<open>connectors\<close> null. The scan records the code 3001 and sets \<open>found_error\<close>; at
  the second link \<open>for connector in None\<close> raises a \<open>TypeError\<close> that no handler
  takes, before the test of line 192 is reached. A connector with the failure signature is
  in the snapshot, and there is no remediation: no configuration pass, no restart request.
  The loop ends there.
\<close>

theorem null_connectors_hide_the_error:
  "json_loads example_lib ''<status with null connectors>'' = Some status_with_null_connectors \<and>
   has_auth_error status_with_null_connectors \<and>
   main example_lib
     ((Response 200 ''<status with null connectors>'', Response 200 ''ok'') # later_replies)
     (example_world ''<config>'') =
     (Some TypeError,
      (example_world ''<config>'')
        \<lparr>trace := [Get_status, Log INFO (Connector_error_code (JStr ''A'') (JInt 3001))]\<rparr>)"
  by (simp add: status_with_null_connectors_facts main_iteration_def example_status_facts(7))
     (simp add: status_with_null_connectors_def dict_get_def zello_def log_def emit_def
        example_status_facts(7))

text \<open>
  C2 fails on the code. The bridge answers 200 with a snapshot that has a connector in
  error 3001 and no \<open>config_file\<close>: the pass is called with \<open>None\<close>, its
  \<open>os.path.exists(None)\<close> raises a \<open>TypeError\<close> that no handler takes, and the
  loop ends there, whatever the bridge would have answered to later polls. The same
  happens, with an \<open>AttributeError\<close>, when the body decodes to a list.
\<close>

theorem missing_config_file_ends_the_loop:
  "main example_lib
     ((Response 200 ''<status without config_file>'', Response 200 ''ok'') # later_replies)
     (example_world ''<config>'') =
     (Some TypeError,
      (example_world ''<config>'')
        \<lparr>trace := [Get_status, Log INFO (Connector_error_code (JStr ''A'') (JInt 3001)),
                   Log INFO Connection_error_found]\<rparr>)"
  by (simp add: main_iteration_200 [OF status_without_config_file_facts(1,2)]
      status_without_config_file_facts example_status_facts remediate_def
      update_connector_tokens_def log_def emit_def)

lemma list_body_ends_the_loop:
  "main example_lib ((Response 200 ''[]'', Response 200 ''ok'') # later_replies) (example_world ''<config>'') =
     (Some AttributeError, (example_world ''<config>'')\<lparr>trace := [Get_status]\<rparr>)"
  by (simp add: main_iteration_def example_lib_def emit_def example_status_facts(7))

text \<open>
  C3, as the code has it. The test is on the status code 200 alone. An answer with any
  other status code, the other codes from 201 to 299 included, gets the two error records
  (the code, the body) and the second of sleep: no scan, no remediation. An answer 200
  whose body decodes to a snapshot of the documented shape is scanned: the records of the
  scan are the first effects after the request, whatever follows them.
\<close>

theorem only_status_200_is_scanned:
  assumes "status_code \<noteq> 200"
      and "json_loads L body' = Some data"
      and "wf_snapshot data"
  shows "main_iteration L (Response status_code body) restart_reply w =
           (None, w\<lparr>trace := trace w @
              [Get_status, Log ERROR (Request_failed status_code), Log ERROR (Response_content body),
               Sleep 1]\<rparr>) \<and>
         (\<exists>r w' evs. main_iteration L (Response 200 body') restart_reply w = (r, w') \<and>
                      trace w' = trace w @ Get_status # scan_log data @ evs)"
proof -
  have one: "main_iteration L (Response status_code body) restart_reply w =
           (None, w\<lparr>trace := trace w @
              [Get_status, Log ERROR (Request_failed status_code), Log ERROR (Response_content body),
               Sleep 1]\<rparr>)"
    using assms(1) by (simp add: main_iteration_def log_def emit_def)
  let ?w1 = "w\<lparr>trace := trace w @ Get_status # scan_log data\<rparr>"
  obtain r w2 where u: "remediate L restart_reply (config_file_of data) ?w1 = (r, w2)"
    by (cases "remediate L restart_reply (config_file_of data) ?w1") auto
  from remediate_trace [OF u] obtain evs where
    evs: "trace w2 = trace w @ Get_status # scan_log data @ evs"
    by auto
  have two: "\<exists>r w' evs. main_iteration L (Response 200 body') restart_reply w = (r, w') \<and>
                      trace w' = trace w @ Get_status # scan_log data @ evs"
    using evs
    by (cases r) (simp_all add: main_iteration_200 [OF assms(2,3)] u)
  from one two show ?thesis by blast
qed

theorem only_status_200_is_scanned_witness:
  "main_iteration example_lib (Response 500 ''Internal Server Error'') (Response 200 ''ok'')
     (example_world ''<config>'') =
     (None, (example_world ''<config>'')
        \<lparr>trace := [Get_status, Log ERROR (Request_failed 500),
                   Log ERROR (Response_content ''Internal Server Error''), Sleep 1]\<rparr>) \<and>
   (\<exists>r w' evs.
      main_iteration example_lib (Response 200 ''<status 4004>'') (Response 200 ''ok'')
        (example_world ''<config>'') = (r, w') \<and>
      trace w' = Get_status # Log INFO (Connector_error_code (JStr ''A'') (JInt 4004)) # evs)"
  using only_status_200_is_scanned
    [OF _ example_status_facts(2) example_status_facts(3),
      of 500 "''Internal Server Error''" "Response 200 ''ok''" "example_world ''<config>''"]
  by (simp add: example_status_facts)

text \<open>
  The claim C3 fails on an answer 203 (a status code of the 2xx class, sent by a
  transforming proxy with the body of the origin): the body would decode to a snapshot
  with a connector in error 3001, and the turn of the loop neither scans nor remediates;
  it records the request as failed.
\<close>

theorem status_203_is_not_scanned:
  "json_loads example_lib ''<status 3001>'' = Some (example_status 3001) \<and>
   has_auth_error (example_status 3001) \<and>
   main_iteration example_lib (Response 203 ''<status 3001>'') (Response 200 ''ok'')
     (example_world ''<config>'') =
     (None, (example_world ''<config>'')
        \<lparr>trace := [Get_status, Log ERROR (Request_failed 203),
                   Log ERROR (Response_content ''<status 3001>''), Sleep 1]\<rparr>)"
  by (simp add: example_status_facts main_iteration_def log_def emit_def)

end
